theory Spec2Isabelle
  imports Complex_Main
begin

section \<open>Logistic regression by gradient descent: the model of \<open>main.py\<close>\<close>

text \<open>
  The class \<open>Logistic_regression\<close> of \<open>main.py\<close> is embedded function by function.
  Rounding is idealised: the entries of arrays, the weights and the probabilities are
  \<open>real\<close>s and arithmetic on them is exact, so the sigmoid of the model never
  rounds to exactly 0 or 1. The loss and the loss difference \<open>e\<close> range over
  \<open>float64\<close>, the finite values together with the infinities and NaN, with numpy's
  rules for them: the logarithm of 0 is \<open>-inf\<close>, \<open>0 * inf\<close> and \<open>inf - inf\<close> are NaN,
  and every comparison with NaN is false. Python's exceptions are values of the type
  \<open>error\<close>; the numpy operations the class calls (\<open>dot\<close>, \<open>T\<close>, \<open>linspace\<close>, elementwise
  arithmetic with broadcasting of one-element vectors) are written out with the shape
  errors numpy raises.
\<close>

subsection \<open>Exceptions, output\<close>

datatype error = ValueError | TypeError | IndexError | ZeroDivisionError

text \<open>The values a float can take where the class computes the loss.\<close>

datatype float64 = Finite real | PosInf | NegInf | NaN

fun f_neg :: "float64 \<Rightarrow> float64" where
  "f_neg (Finite x) = Finite (- x)"
| "f_neg PosInf = NegInf"
| "f_neg NegInf = PosInf"
| "f_neg NaN = NaN"

fun f_add :: "float64 \<Rightarrow> float64 \<Rightarrow> float64" where
  "f_add (Finite x) (Finite y) = Finite (x + y)"
| "f_add NaN b = NaN"
| "f_add a NaN = NaN"
| "f_add PosInf NegInf = NaN"
| "f_add NegInf PosInf = NaN"
| "f_add PosInf b = PosInf"
| "f_add a PosInf = PosInf"
| "f_add NegInf b = NegInf"
| "f_add a NegInf = NegInf"

definition f_sub :: "float64 \<Rightarrow> float64 \<Rightarrow> float64" where
  "f_sub a b = f_add a (f_neg b)"

text \<open>The product of a finite factor and a value.\<close>

fun f_mul :: "real \<Rightarrow> float64 \<Rightarrow> float64" where
  "f_mul x (Finite y) = Finite (x * y)"
| "f_mul x PosInf = (if x = 0 then NaN else if 0 < x then PosInf else NegInf)"
| "f_mul x NegInf = (if x = 0 then NaN else if 0 < x then NegInf else PosInf)"
| "f_mul x NaN = NaN"

text \<open>\<open>np.log\<close> of a finite number: \<open>-inf\<close> at 0 and NaN below it, with a warning only.\<close>

definition f_log :: "real \<Rightarrow> float64" where
  "f_log x = (if 0 < x then Finite (ln x) else if x = 0 then NegInf else NaN)"

text \<open>The comparisons \<open>e > d\<close> and \<open>e < d\<close> with a finite \<open>d\<close>.\<close>

fun f_gt :: "float64 \<Rightarrow> real \<Rightarrow> bool" where
  "f_gt (Finite x) d = (d < x)"
| "f_gt PosInf d = True"
| "f_gt NegInf d = False"
| "f_gt NaN d = False"

fun f_lt :: "float64 \<Rightarrow> real \<Rightarrow> bool" where
  "f_lt (Finite x) d = (x < d)"
| "f_lt PosInf d = False"
| "f_lt NegInf d = True"
| "f_lt NaN d = False"

text \<open>The lines the class prints, one constructor per \<open>print\<close> call of the source.\<close>

datatype msg =
    Starting_fitting_process
  | Cross_entropy_is float64
  | Iteration_is int
  | Difference_reached_threshold
  | Reached_max_iterations
  | Model_not_trained

subsection \<open>numpy arrays\<close>

type_synonym vec = "real list"

text \<open>
  A two-dimensional array keeps its column count beside its rows, so an array with no
  rows still has a shape \<open>(0, d)\<close>. The rows of a numpy array all have that many
  entries; no result below depends on it.
\<close>

record matrix =
  ncols :: nat
  rows :: "vec list"

definition shape0 :: "matrix \<Rightarrow> nat" where
  "shape0 X = length (rows X)"

definition shape1 :: "matrix \<Rightarrow> nat" where
  "shape1 X = ncols X"

text \<open>
  \<open>u.dot(v)\<close> for one-dimensional \<open>u\<close>, \<open>v\<close>, where \<open>v\<close> holds logarithms: the lengths
  must agree.
\<close>

definition dot_vv :: "vec \<Rightarrow> float64 list \<Rightarrow> error + float64" where
  "dot_vv u v =
     (if length u \<noteq> length v then Inl ValueError
      else Inr (foldl f_add (Finite 0) (map2 f_mul u v)))"

text \<open>\<open>X.dot(v)\<close> for two-dimensional \<open>X\<close>: the width of \<open>X\<close> must be the length of \<open>v\<close>.\<close>

definition dot_mv :: "matrix \<Rightarrow> vec \<Rightarrow> error + vec" where
  "dot_mv X v =
     (if ncols X \<noteq> length v then Inl ValueError
      else Inr (map (\<lambda>r. sum_list (map2 (*) r v)) (rows X)))"

text \<open>\<open>X.T\<close>\<close>

definition transpose_m :: "matrix \<Rightarrow> matrix" where
  "transpose_m X =
     \<lparr>ncols = length (rows X),
      rows = map (\<lambda>j. map (\<lambda>r. r ! j) (rows X)) [0..<ncols X]\<rparr>"

text \<open>\<open>u - v\<close>: elementwise, a vector of length one is broadcast.\<close>

definition sub_vv :: "vec \<Rightarrow> vec \<Rightarrow> error + vec" where
  "sub_vv u v =
     (if length u = length v then Inr (map2 (-) u v)
      else if length u = 1 then Inr (map (\<lambda>y. hd u - y) v)
      else if length v = 1 then Inr (map (\<lambda>x. x - hd v) u)
      else Inl ValueError)"

text \<open>\<open>u += v\<close>: in place, so only \<open>v\<close> may be broadcast.\<close>

definition iadd_vv :: "vec \<Rightarrow> vec \<Rightarrow> error + vec" where
  "iadd_vv u v =
     (if length u = length v then Inr (map2 (+) u v)
      else if length v = 1 then Inr (map (\<lambda>x. x + hd v) u)
      else Inl ValueError)"

definition scale :: "real \<Rightarrow> vec \<Rightarrow> vec" where
  "scale c v = map (\<lambda>x. c * x) v"

text \<open>
  \<open>ones = np.array([[1] * N]).T; X = np.concatenate((ones, X), axis=1)\<close> with
  \<open>N = X.shape[0]\<close>: the two arrays have the same number of rows by construction.
\<close>

definition add_ones :: "matrix \<Rightarrow> matrix" where
  "add_ones X = \<lparr>ncols = Suc (ncols X), rows = map (\<lambda>r. 1 # r) (rows X)\<rparr>"

text \<open>\<open>np.linspace(start, stop, num)\<close>: the last point is \<open>stop\<close> itself.\<close>

definition linspace :: "real \<Rightarrow> real \<Rightarrow> nat \<Rightarrow> real list" where
  "linspace start stop num =
     (if num = 1 then [start]
      else map (\<lambda>i. if Suc i = num then stop
                     else start + real i * ((stop - start) / real (num - 1)))
               [0..<num])"

text \<open>\<open>n / d\<close> on Python integers.\<close>

definition py_div :: "nat \<Rightarrow> nat \<Rightarrow> error + real" where
  "py_div n d = (if d = 0 then Inl ZeroDivisionError else Inr (real n / real d))"

subsection \<open>The model object\<close>

record Logistic_regression =
  self_D :: "nat option"
  self_trained :: bool
  self_max_iter :: int
  self_a :: real
  self_w :: "vec option"
  self_N :: "nat option"
  self_error_diff :: real
  self_show :: bool

text \<open>\<open>__init__(max_iter=1000, a=0.01, error_diff=1e-7, show=False)\<close>\<close>

definition init :: "int \<Rightarrow> real \<Rightarrow> real \<Rightarrow> bool \<Rightarrow> Logistic_regression" where
  "init max_iter a error_diff show_info =
     \<lparr>self_D = None, self_trained = False, self_max_iter = max_iter, self_a = a,
      self_w = None, self_N = None, self_error_diff = error_diff,
      self_show = show_info\<rparr>"

definition sigmoid :: "real \<Rightarrow> real" where
  "sigmoid z = 1 / (1 + exp (- z))"

text \<open>\<open>-T.dot(np.log(y_pred)) - (1 - T).dot(np.log(1 - y_pred))\<close>\<close>

definition cross_entropy :: "vec \<Rightarrow> vec \<Rightarrow> error + float64" where
  "cross_entropy T y_pred =
     (case dot_vv T (map f_log y_pred) of
        Inl err \<Rightarrow> Inl err
      | Inr l1 \<Rightarrow>
     (case dot_vv (map (\<lambda>t. 1 - t) T) (map (\<lambda>y. f_log (1 - y)) y_pred) of
        Inl err \<Rightarrow> Inl err
      | Inr l2 \<Rightarrow> Inr (f_sub (f_neg l1) l2)))"

subsection \<open>\<open>fit\<close>\<close>

text \<open>The local variables of \<open>fit\<close> that the loop changes, and what it has printed.\<close>

record fit_state =
  loc_w :: vec
  loc_iterations :: int
  loc_y_prob :: vec
  loc_e :: float64
  loc_e_prev :: float64
  loc_out :: "msg list"

text \<open>
  The body of the \<open>while\<close> loop up to the last statement but one; \<open>X\<close> is the matrix
  with the column of ones. The counter is incremented by the loop itself.
\<close>

definition fit_body :: "Logistic_regression \<Rightarrow> matrix \<Rightarrow> vec \<Rightarrow> fit_state \<Rightarrow> error + fit_state" where
  "fit_body self X Y s =
     (case sub_vv Y (loc_y_prob s) of
        Inl err \<Rightarrow> Inl err
      | Inr diff \<Rightarrow>
     (case dot_mv (transpose_m X) diff of
        Inl err \<Rightarrow> Inl err
      | Inr g \<Rightarrow>
     (case iadd_vv (loc_w s) (scale (self_a self) g) of
        Inl err \<Rightarrow> Inl err
      | Inr w \<Rightarrow>
     (case dot_mv X w of
        Inl err \<Rightarrow> Inl err
      | Inr z \<Rightarrow>
     (case cross_entropy Y (map sigmoid z) of
        Inl err \<Rightarrow> Inl err
      | Inr e_new \<Rightarrow>
          Inr (s\<lparr>loc_w := w,
                 loc_y_prob := map sigmoid z,
                 loc_e := f_sub (loc_e_prev s) e_new,
                 loc_e_prev := e_new,
                 loc_out := loc_out s @
                   (if loc_iterations s mod 20 = 0 \<and> self_show self
                    then [Cross_entropy_is e_new, Iteration_is (loc_iterations s)]
                    else [])\<rparr>))))))"

function fit_loop :: "Logistic_regression \<Rightarrow> matrix \<Rightarrow> vec \<Rightarrow> fit_state \<Rightarrow> error + fit_state" where
  "fit_loop self X Y s =
     (if loc_iterations s < self_max_iter self \<and> f_gt (loc_e s) (self_error_diff self) then
        (case fit_body self X Y s of
           Inl err \<Rightarrow> Inl err
         | Inr s' \<Rightarrow> fit_loop self X Y (s'\<lparr>loc_iterations := loc_iterations s + 1\<rparr>))
      else Inr s)"
  by pat_completeness auto
termination
  by (relation "measure (\<lambda>(self, X, Y, s). nat (self_max_iter self - loc_iterations s))") auto

declare fit_loop.simps [simp del]

text \<open>
  The statements of \<open>fit\<close> before the loop, after \<open>self.N\<close> and \<open>self.D\<close> are set
  (so \<open>self.D + 1\<close> is \<open>X.shape[1] + 1\<close>): the initial weights, the counter, the first
  probabilities, \<open>e = 1\<close> and the first loss. The draws of \<open>np.random.randn\<close> are the
  argument \<open>randn\<close>.
\<close>

definition fit_start :: "Logistic_regression \<Rightarrow> matrix \<Rightarrow> vec \<Rightarrow> (nat \<Rightarrow> real) \<Rightarrow> error + fit_state" where
  "fit_start self X Y randn =
     (let w = scale 0.01 (map randn [0..<shape1 X + 1]) in
      (case dot_mv (add_ones X) w of
         Inl err \<Rightarrow> Inl err
       | Inr z \<Rightarrow>
      (case cross_entropy Y (map sigmoid z) of
         Inl err \<Rightarrow> Inl err
       | Inr e_prev \<Rightarrow>
           Inr \<lparr>loc_w = w, loc_iterations = 1, loc_y_prob = map sigmoid z,
                loc_e = Finite 1, loc_e_prev = e_prev,
                loc_out = (if self_show self
                           then [Starting_fitting_process, Cross_entropy_is e_prev]
                           else [])\<rparr>)))"

text \<open>
  \<open>fit(X, Y)\<close>. An exception leaves the object as the assignments before it made it,
  so the error comes with that object; a normal return comes with what was printed and
  the object.
\<close>

definition fit :: "Logistic_regression \<Rightarrow> matrix \<Rightarrow> vec \<Rightarrow> (nat \<Rightarrow> real) \<Rightarrow>
    (error \<times> Logistic_regression) + (msg list \<times> Logistic_regression)" where
  "fit self X Y randn =
     (let self1 = self\<lparr>self_N := Some (shape0 X), self_D := Some (shape1 X)\<rparr> in
      (case fit_start self1 X Y randn of
         Inl err \<Rightarrow> Inl (err, self1)
       | Inr s0 \<Rightarrow>
      (case fit_loop self1 (add_ones X) Y s0 of
         Inl err \<Rightarrow> Inl (err, self1)
       | Inr s \<Rightarrow>
           Inr (loc_out s @
                  (if self_show self \<and> f_lt (loc_e s) (self_error_diff self)
                   then [Difference_reached_threshold]
                   else if loc_iterations s < self_max_iter self
                   then [Reached_max_iterations]
                   else []),
                self1\<lparr>self_trained := True, self_w := Some (loc_w s)\<rparr>))))"

subsection \<open>Inference\<close>

definition get_coef :: "Logistic_regression \<Rightarrow> msg list \<times> vec option" where
  "get_coef self =
     (if self_trained self then ([], self_w self) else ([Model_not_trained], None))"

text \<open>
  \<open>y_probab(X)\<close> is \<open>sigmoid(X.dot(self.w))\<close> and nothing else. With \<open>self.w\<close> still
  \<open>None\<close> the product multiplies every entry of \<open>X\<close> by \<open>None\<close>, which raises
  \<open>TypeError\<close>; an \<open>X\<close> without entries gives an array without entries, here \<open>[]\<close>.
\<close>

definition y_probab :: "Logistic_regression \<Rightarrow> matrix \<Rightarrow> error + vec" where
  "y_probab self X =
     (case self_w self of
        None \<Rightarrow> (if rows X = [] \<or> ncols X = 0 then Inr [] else Inl TypeError)
      | Some w \<Rightarrow>
          (case dot_mv X w of
             Inl err \<Rightarrow> Inl err
           | Inr z \<Rightarrow> Inr (map sigmoid z)))"

definition predict :: "Logistic_regression \<Rightarrow> matrix \<Rightarrow> real \<Rightarrow> error + (msg list \<times> int list option)" where
  "predict self X p =
     (if self_trained self then
        (case y_probab self (add_ones X) of
           Inl err \<Rightarrow> Inl err
         | Inr probs \<Rightarrow> Inr ([], Some (map (\<lambda>i. if i < p then 0 else 1) probs)))
      else Inr ([Model_not_trained], None))"

subsection \<open>Evaluation\<close>

record counts =
  TP :: nat
  FP :: nat
  TN :: nat
  FN :: nat

text \<open>What \<open>confusion_matrix\<close> returns: the tuple \<open>(TP, FP, FN, TN)\<close> or the 2x2 array.\<close>

datatype cm_value = Values "nat \<times> nat \<times> nat \<times> nat" | Array "nat list list"

text \<open>
  The loop \<open>for i in range(len(T))\<close>. \<open>T[i]\<close> is in range; \<open>Y_prob[i]\<close> is read in
  either branch and raises \<open>IndexError\<close> when \<open>Y_prob\<close> is too short.
\<close>

fun cm_loop :: "'a::zero list \<Rightarrow> 'b::{zero,one} list \<Rightarrow> nat list \<Rightarrow> counts \<Rightarrow> error + counts" where
  "cm_loop T Y_prob [] c = Inr c"
| "cm_loop T Y_prob (i # is) c =
     (if T ! i = 0 then
        (if length Y_prob \<le> i then Inl IndexError
         else if Y_prob ! i = 0 then cm_loop T Y_prob is (c\<lparr>TP := TP c + 1\<rparr>)
         else cm_loop T Y_prob is (c\<lparr>FN := FN c + 1\<rparr>))
      else
        (if length Y_prob \<le> i then Inl IndexError
         else if Y_prob ! i = 1 then cm_loop T Y_prob is (c\<lparr>TN := TN c + 1\<rparr>)
         else cm_loop T Y_prob is (c\<lparr>FP := FP c + 1\<rparr>)))"

definition confusion_matrix :: "'a::zero list \<Rightarrow> 'b::{zero,one} list \<Rightarrow> bool \<Rightarrow> error + cm_value" where
  "confusion_matrix T Y_prob values =
     (case cm_loop T Y_prob [0..<length T] \<lparr>TP = 0, FP = 0, TN = 0, FN = 0\<rparr> of
        Inl err \<Rightarrow> Inl err
      | Inr c \<Rightarrow>
          Inr (if values then Values (TP c, FP c, FN c, TN c)
               else Array [[TP c, FN c], [FP c, TN c]]))"

text \<open>The dictionary \<open>metrics\<close> returns, a field per key.\<close>

record class_metrics =
  key_recall :: real
  key_precision :: real
  key_F1 :: real

record metrics_report =
  key_class_1 :: class_metrics
  key_class_2 :: class_metrics
  key_accuracy :: real

text \<open>
  \<open>metrics(T, Y)\<close>: every quotient raises \<open>ZeroDivisionError\<close> on a zero denominator,
  whichever comes first.
\<close>

definition metrics :: "'a::zero list \<Rightarrow> 'b::{zero,one} list \<Rightarrow> error + metrics_report" where
  "metrics T Y =
     (case confusion_matrix T Y True of
        Inl err \<Rightarrow> Inl err
      | Inr (Array arr) \<Rightarrow> Inl ValueError
      | Inr (Values (tp, fp, fn, tn)) \<Rightarrow>
          (if tp + fn = 0 \<or> tp + fp = 0 \<or> real tp + 0.5 * real (fp + fn) = 0 \<or>
              tn + fp = 0 \<or> tn + fn = 0 \<or> real tn + 0.5 * real (fn + fp) = 0 \<or>
              tn + tp + fn + fp = 0
           then Inl ZeroDivisionError
           else Inr \<lparr>key_class_1 = \<lparr>key_recall = real tp / real (tp + fn),
                                key_precision = real tp / real (tp + fp),
                                key_F1 = real tp / (real tp + 0.5 * real (fp + fn))\<rparr>,
                     key_class_2 = \<lparr>key_recall = real tn / real (tn + fp),
                                key_precision = real tn / real (tn + fn),
                                key_F1 = real tn / (real tn + 0.5 * real (fn + fp))\<rparr>,
                     key_accuracy = real (tn + tp) / real (tn + tp + fn + fp)\<rparr>))"

text \<open>The calls \<open>ROC\<close> makes on \<open>matplotlib.pyplot\<close>, in order.\<close>

datatype plt_call =
    Plot_ROC_curve vec vec real
  | Plot_dashed vec vec
  | Legend string
  | Ylabel string
  | Xlabel string
  | Show

text \<open>
  The sweep \<open>for p in np.linspace(0, 1, num=divisions)\<close>. When \<open>predict\<close> returns
  \<open>None\<close> (model not trained), \<open>confusion_matrix(T, None)\<close> raises \<open>TypeError\<close> at
  \<open>Y_prob[0]\<close>, unless \<open>T\<close> is empty and the loop reads nothing. What \<open>predict\<close>
  printed is not kept.
\<close>

fun roc_loop :: "Logistic_regression \<Rightarrow> matrix \<Rightarrow> 'a::zero list \<Rightarrow> real list \<Rightarrow> vec \<Rightarrow> vec \<Rightarrow>
    error + (vec \<times> vec)" where
  "roc_loop self X T [] recall specif_minus = Inr (recall, specif_minus)"
| "roc_loop self X T (p # ps) recall specif_minus =
     (case predict self X p of
        Inl err \<Rightarrow> Inl err
      | Inr (out, y_predict) \<Rightarrow>
     (case (case y_predict of
              None \<Rightarrow> (if T = [] then confusion_matrix T ([] :: int list) True
                       else Inl TypeError)
            | Some ys \<Rightarrow> confusion_matrix T ys True) of
        Inl err \<Rightarrow> Inl err
      | Inr (Array arr) \<Rightarrow> Inl ValueError
      | Inr (Values (tp, fp, fn, tn)) \<Rightarrow>
     (case py_div tp (tp + fn) of
        Inl err \<Rightarrow> Inl err
      | Inr r \<Rightarrow>
     (case py_div tn (tn + fp) of
        Inl err \<Rightarrow> Inl err
      | Inr sp \<Rightarrow>
          roc_loop self X T ps (recall @ [r]) (specif_minus @ [1 - sp])))))"

text \<open>\<open>for i in range(len(recall) - 1): auc += ...\<close>\<close>

definition auc_loop :: "vec \<Rightarrow> vec \<Rightarrow> real" where
  "auc_loop recall specif_minus =
     fold (\<lambda>i auc. auc + (recall ! i + recall ! (i + 1)) *
                         (specif_minus ! (i + 1) - specif_minus ! i) * 0.5)
          [0..<length recall - 1] 0"

text \<open>
  \<open>ROC(X, T)\<close> has no \<open>return\<close> statement: its value is \<open>None\<close>, here \<open>()\<close>, and the
  curve goes to the plotting calls.
\<close>

definition ROC :: "Logistic_regression \<Rightarrow> matrix \<Rightarrow> 'a::zero list \<Rightarrow> error + (plt_call list \<times> unit)" where
  "ROC self X T =
     (case roc_loop self X T (linspace 0 1 100) [] [] of
        Inl err \<Rightarrow> Inl err
      | Inr (recall, specif_minus) \<Rightarrow>
          Inr ([Plot_ROC_curve specif_minus recall (auc_loop recall specif_minus),
                Plot_dashed [0, 1] [0, 1],
                Legend ''lower right'',
                Ylabel ''sensitivity'',
                Xlabel ''1 - specificity'',
                Show], ()))"

subsection \<open>The operations of the class as a state machine\<close>

datatype call =
    Fit matrix vec "nat \<Rightarrow> real"
  | Get_coef
  | Y_probab matrix
  | Predict matrix real
  | Confusion_matrix "real list" "int list" bool
  | Metrics "real list" "int list"
  | Roc matrix "real list"

text \<open>The object after a call, returned or raised: only \<open>fit\<close> assigns to \<open>self\<close>.\<close>

fun after_call :: "Logistic_regression \<Rightarrow> call \<Rightarrow> Logistic_regression" where
  "after_call self (Fit X Y randn) =
     (case fit self X Y randn of Inl (err, self') \<Rightarrow> self' | Inr (out, self') \<Rightarrow> self')"
| "after_call self Get_coef = self"
| "after_call self (Y_probab X) = self"
| "after_call self (Predict X p) = self"
| "after_call self (Confusion_matrix T Y values) = self"
| "after_call self (Metrics T Y) = self"
| "after_call self (Roc X T) = self"

subsection \<open>Notions used to state the results\<close>

text \<open>
  The weights one pass through the loop body computes from the state \<open>s\<close>, as the
  body composes them from the array operations.
\<close>

definition step_w :: "Logistic_regression \<Rightarrow> matrix \<Rightarrow> vec \<Rightarrow> fit_state \<Rightarrow> vec" where
  "step_w self X Y s =
     map2 (+) (loc_w s)
       (scale (self_a self)
          (map (\<lambda>c. sum_list (map2 (*) c (map2 (-) Y (loc_y_prob s)))) (rows (transpose_m X))))"

text \<open>The number of samples \<open>i\<close> with \<open>T[i] = t\<close> and \<open>Y_pred[i] = y\<close>.\<close>

definition bucket :: "'a list \<Rightarrow> 'b list \<Rightarrow> 'a \<Rightarrow> 'b \<Rightarrow> nat" where
  "bucket T Y_pred t y = length (filter (\<lambda>i. T ! i = t \<and> Y_pred ! i = y) [0..<length T])"

text \<open>
  The ROC curve in the words of the specification. The thresholds are the 100 evenly
  spaced values from 0 to 1; a point is \<open>(1 - specificity, recall)\<close> with
  \<open>recall = TP / (TP + FN)\<close> and \<open>specificity = TN / (TN + FP)\<close>, label 0 being the
  positive class; the area is the trapezoidal sum over consecutive points in the order
  they are given.
\<close>

definition thresholds :: "real list" where
  "thresholds = map (\<lambda>k. real k / 99) [0..<100]"

definition roc_point :: "'a::zero_neq_one list \<Rightarrow> int list \<Rightarrow> real \<times> real" where
  "roc_point T Y_pred =
     (1 - real (bucket T Y_pred 1 1) / real (bucket T Y_pred 1 1 + bucket T Y_pred 1 0),
      real (bucket T Y_pred 0 0) / real (bucket T Y_pred 0 0 + bucket T Y_pred 0 1))"

definition trapezoid_auc :: "(real \<times> real) list \<Rightarrow> real" where
  "trapezoid_auc pts =
     (\<Sum>i<length pts - 1.
        0.5 * (snd (pts ! i) + snd (pts ! (i + 1))) * (fst (pts ! (i + 1)) - fst (pts ! i)))"

section \<open>Results\<close>

subsection \<open>Shapes and the loop of \<open>fit\<close>\<close>

lemma dot_mv_ok:
  "ncols X = length v \<Longrightarrow> dot_mv X v = Inr (map (\<lambda>r. sum_list (map2 (*) r v)) (rows X))"
  by (simp add: dot_mv_def)

lemma cross_entropy_err: "length T \<noteq> length y \<Longrightarrow> cross_entropy T y = Inl ValueError"
  by (simp add: cross_entropy_def dot_vv_def)

lemma cross_entropy_ok:
  "length T = length y \<Longrightarrow> \<exists>l. cross_entropy T y = Inr l"
  by (simp add: cross_entropy_def dot_vv_def)

lemma add_ones_simps [simp]:
  "ncols (add_ones X) = Suc (ncols X)"
  "rows (add_ones X) = map (\<lambda>r. 1 # r) (rows X)"
  by (simp_all add: add_ones_def)

lemma transpose_m_simps [simp]:
  "ncols (transpose_m X) = length (rows X)"
  "rows (transpose_m X) = map (\<lambda>j. map (\<lambda>r. r ! j) (rows X)) [0..<ncols X]"
  by (simp_all add: transpose_m_def)

lemma length_step_w:
  "length (loc_w s) = ncols X \<Longrightarrow> length (step_w self X Y s) = ncols X"
  by (simp add: step_w_def scale_def)

lemma fit_body_ok:
  assumes "length Y = length (rows X)" "length (loc_y_prob s) = length (rows X)"
    "length (loc_w s) = ncols X"
  shows "\<exists>e_new. cross_entropy Y (map sigmoid (map (\<lambda>r. sum_list (map2 (*) r (step_w self X Y s))) (rows X))) = Inr e_new \<and>
    fit_body self X Y s =
      Inr (s\<lparr>loc_w := step_w self X Y s,
             loc_y_prob := map sigmoid (map (\<lambda>r. sum_list (map2 (*) r (step_w self X Y s))) (rows X)),
             loc_e := f_sub (loc_e_prev s) e_new,
             loc_e_prev := e_new,
             loc_out := loc_out s @
               (if loc_iterations s mod 20 = 0 \<and> self_show self
                then [Cross_entropy_is e_new, Iteration_is (loc_iterations s)]
                else [])\<rparr>)"
proof -
  have 1: "sub_vv Y (loc_y_prob s) = Inr (map2 (-) Y (loc_y_prob s))"
    using assms by (simp add: sub_vv_def)
  have 2: "dot_mv (transpose_m X) (map2 (-) Y (loc_y_prob s)) =
      Inr (map (\<lambda>c. sum_list (map2 (*) c (map2 (-) Y (loc_y_prob s)))) (rows (transpose_m X)))"
    using assms by (intro dot_mv_ok) simp
  have 3: "iadd_vv (loc_w s) (scale (self_a self)
        (map (\<lambda>c. sum_list (map2 (*) c (map2 (-) Y (loc_y_prob s)))) (rows (transpose_m X))))
      = Inr (step_w self X Y s)"
    using assms by (simp add: iadd_vv_def step_w_def scale_def)
  have 4: "dot_mv X (step_w self X Y s) =
      Inr (map (\<lambda>r. sum_list (map2 (*) r (step_w self X Y s))) (rows X))"
    using assms by (intro dot_mv_ok) (simp add: length_step_w)
  obtain e_new where 5: "cross_entropy Y (map sigmoid (map (\<lambda>r. sum_list (map2 (*) r (step_w self X Y s))) (rows X))) = Inr e_new"
    using assms cross_entropy_ok[of Y "map sigmoid (map (\<lambda>r. sum_list (map2 (*) r (step_w self X Y s))) (rows X))"]
    by auto
  show ?thesis
    unfolding fit_body_def by (simp only: 1 2 3 4 5 sum.case) blast
qed


lemma fit_body_shapes:
  assumes "length Y = length (rows X)" "length (loc_y_prob s) = length (rows X)"
    "length (loc_w s) = ncols X"
  shows "\<exists>s'. fit_body self X Y s = Inr s' \<and>
    length (loc_y_prob s') = length (rows X) \<and> length (loc_w s') = ncols X \<and>
    loc_iterations s' = loc_iterations s"
proof -
  from fit_body_ok[OF assms, of self] obtain e_new where
    "fit_body self X Y s =
      Inr (s\<lparr>loc_w := step_w self X Y s,
             loc_y_prob := map sigmoid (map (\<lambda>r. sum_list (map2 (*) r (step_w self X Y s))) (rows X)),
             loc_e := f_sub (loc_e_prev s) e_new,
             loc_e_prev := e_new,
             loc_out := loc_out s @
               (if loc_iterations s mod 20 = 0 \<and> self_show self
                then [Cross_entropy_is e_new, Iteration_is (loc_iterations s)]
                else [])\<rparr>)"
    by blast
  then show ?thesis
    using assms(3) by (simp add: length_step_w)
qed

lemma fit_loop_stop:
  "\<not> (loc_iterations s < self_max_iter self \<and> f_gt (loc_e s) (self_error_diff self)) \<Longrightarrow>
   fit_loop self X Y s = Inr s"
  by (subst fit_loop.simps) auto

lemma fit_loop_step:
  "loc_iterations s < self_max_iter self \<and> f_gt (loc_e s) (self_error_diff self) \<Longrightarrow>
   fit_body self X Y s = Inr s1 \<Longrightarrow>
   fit_loop self X Y s = fit_loop self X Y (s1\<lparr>loc_iterations := loc_iterations s + 1\<rparr>)"
  by (subst fit_loop.simps) auto

lemma fit_loop_exit:
  "fit_loop self X Y s = Inr s' \<Longrightarrow>
   \<not> (loc_iterations s' < self_max_iter self \<and> f_gt (loc_e s') (self_error_diff self))"
proof (induction self X Y s rule: fit_loop.induct)
  case (1 self X Y s)
  show ?case
  proof (cases "loc_iterations s < self_max_iter self \<and> f_gt (loc_e s) (self_error_diff self)")
    case True
    with "1.prems" obtain s1 where b: "fit_body self X Y s = Inr s1"
      and l: "fit_loop self X Y (s1\<lparr>loc_iterations := loc_iterations s + 1\<rparr>) = Inr s'"
      by (simp add: fit_loop.simps[of self X Y s] split: sum.splits)
    from "1.IH"[OF True b l] show ?thesis .
  next
    case False
    with "1.prems" have "s' = s" by (simp add: fit_loop_stop)
    with False show ?thesis by simp
  qed
qed

lemma fit_loop_returns:
  "length Y = length (rows X) \<Longrightarrow>
   length (loc_y_prob s) = length (rows X) \<Longrightarrow> length (loc_w s) = ncols X \<Longrightarrow>
    \<exists>s'. fit_loop self X Y s = Inr s' \<and> length (loc_w s') = ncols X \<and>
         loc_iterations s \<le> loc_iterations s' \<and>
         loc_iterations s' \<le> max (loc_iterations s) (self_max_iter self)"
proof (induction self X Y s rule: fit_loop.induct)
  case (1 self X Y s)
  show ?case
  proof (cases "loc_iterations s < self_max_iter self \<and> f_gt (loc_e s) (self_error_diff self)")
    case True
    from fit_body_shapes[OF "1.prems", of self] obtain s1 where
      b: "fit_body self X Y s = Inr s1" and
      sh: "length (loc_y_prob s1) = length (rows X)" "length (loc_w s1) = ncols X"
      by blast
    let ?s2 = "s1\<lparr>loc_iterations := loc_iterations s + 1\<rparr>"
    have "length (loc_y_prob ?s2) = length (rows X)" "length (loc_w ?s2) = ncols X"
      using sh by simp_all
    from "1.IH"[OF True b "1.prems"(1) this] obtain s' where
      r: "fit_loop self X Y ?s2 = Inr s'" "length (loc_w s') = ncols X"
         "loc_iterations ?s2 \<le> loc_iterations s'"
         "loc_iterations s' \<le> max (loc_iterations ?s2) (self_max_iter self)"
      by blast
    have "fit_loop self X Y s = Inr s'"
      using fit_loop_step[OF True b] r(1) by simp
    moreover have "loc_iterations s \<le> loc_iterations s'" using r(3) by simp
    moreover have "loc_iterations s' \<le> max (loc_iterations s) (self_max_iter self)"
      using r(4) True by simp
    ultimately show ?thesis using r(2) by blast
  next
    case False
    then have "fit_loop self X Y s = Inr s" by (rule fit_loop_stop)
    with "1.prems" show ?thesis by auto
  qed
qed


lemma fit_start_mismatch:
  assumes "length Y \<noteq> shape0 X"
  shows "fit_start self X Y randn = Inl ValueError"
proof -
  let ?w0 = "scale 0.01 (map randn [0..<shape1 X + 1])"
  have d: "dot_mv (add_ones X) ?w0 =
      Inr (map (\<lambda>r. sum_list (map2 (*) r ?w0)) (rows (add_ones X)))"
    by (intro dot_mv_ok) (simp add: scale_def shape1_def)
  have c: "cross_entropy Y (map sigmoid (map (\<lambda>r. sum_list (map2 (*) r ?w0)) (rows (add_ones X))))
      = Inl ValueError"
    using assms by (intro cross_entropy_err) (simp add: shape0_def)
  show ?thesis
    unfolding fit_start_def Let_def by (simp only: d c sum.case)
qed

lemma fit_start_ok:
  assumes "length Y = shape0 X"
  shows "\<exists>z e_prev.
      dot_mv (add_ones X) (scale 0.01 (map randn [0..<shape1 X + 1])) = Inr z \<and>
      cross_entropy Y (map sigmoid z) = Inr e_prev \<and>
      fit_start self X Y randn =
        Inr \<lparr>loc_w = scale 0.01 (map randn [0..<shape1 X + 1]), loc_iterations = 1,
             loc_y_prob = map sigmoid z, loc_e = Finite 1, loc_e_prev = e_prev,
             loc_out = (if self_show self
                        then [Starting_fitting_process, Cross_entropy_is e_prev]
                        else [])\<rparr>"
proof -
  let ?w0 = "scale 0.01 (map randn [0..<shape1 X + 1])"
  let ?z = "map (\<lambda>r. sum_list (map2 (*) r ?w0)) (rows (add_ones X))"
  have d: "dot_mv (add_ones X) ?w0 = Inr ?z"
    by (intro dot_mv_ok) (simp add: scale_def shape1_def)
  obtain e_prev where c: "cross_entropy Y (map sigmoid ?z) = Inr e_prev"
    using assms cross_entropy_ok[of Y "map sigmoid ?z"] by (auto simp: shape0_def)
  have "fit_start self X Y randn =
        Inr \<lparr>loc_w = ?w0, loc_iterations = 1,
             loc_y_prob = map sigmoid ?z, loc_e = Finite 1, loc_e_prev = e_prev,
             loc_out = (if self_show self
                        then [Starting_fitting_process, Cross_entropy_is e_prev]
                        else [])\<rparr>"
    unfolding fit_start_def Let_def by (simp only: d c sum.case)
  with d c show ?thesis by blast
qed

lemma fit_start_shapes:
  assumes "fit_start self X Y randn = Inr s0"
  shows "length Y = shape0 X" "length (loc_y_prob s0) = shape0 X"
    "length (loc_w s0) = shape1 X + 1" "loc_iterations s0 = 1" "loc_e s0 = Finite 1"
    "loc_w s0 = scale 0.01 (map randn [0..<shape1 X + 1])"
proof -
  show l: "length Y = shape0 X"
    using assms fit_start_mismatch[of Y X self randn] by auto
  from fit_start_ok[OF l, of randn self] assms obtain z e_prev where
    z: "dot_mv (add_ones X) (scale 0.01 (map randn [0..<shape1 X + 1])) = Inr z" and
    s0: "s0 = \<lparr>loc_w = scale 0.01 (map randn [0..<shape1 X + 1]), loc_iterations = 1,
             loc_y_prob = map sigmoid z, loc_e = Finite 1, loc_e_prev = e_prev,
             loc_out = (if self_show self
                        then [Starting_fitting_process, Cross_entropy_is e_prev]
                        else [])\<rparr>"
    by auto
  have "length z = shape0 X"
    using z by (auto simp: dot_mv_def shape0_def split: if_splits)
  then show "length (loc_y_prob s0) = shape0 X" by (simp add: s0)
  show "length (loc_w s0) = shape1 X + 1" by (simp add: s0 scale_def)
  show "loc_iterations s0 = 1" by (simp add: s0)
  show "loc_e s0 = Finite 1" by (simp add: s0)
  show "loc_w s0 = scale 0.01 (map randn [0..<shape1 X + 1])" by (simp add: s0)
qed

lemma fit_mismatch:
  assumes "length Y \<noteq> shape0 X"
  shows "fit self X Y randn =
    Inl (ValueError, self\<lparr>self_N := Some (shape0 X), self_D := Some (shape1 X)\<rparr>)"
  unfolding fit_def Let_def by (simp only: fit_start_mismatch[OF assms] sum.case)

lemma fit_match:
  assumes "length Y = shape0 X"
  shows "\<exists>s0 s.
      fit_start (self\<lparr>self_N := Some (shape0 X), self_D := Some (shape1 X)\<rparr>) X Y randn = Inr s0 \<and>
      fit_loop (self\<lparr>self_N := Some (shape0 X), self_D := Some (shape1 X)\<rparr>) (add_ones X) Y s0 = Inr s \<and>
      length (loc_w s) = shape1 X + 1 \<and>
      fit self X Y randn =
        Inr (loc_out s @
               (if self_show self \<and> f_lt (loc_e s) (self_error_diff self)
                then [Difference_reached_threshold]
                else if loc_iterations s < self_max_iter self
                then [Reached_max_iterations]
                else []),
             self\<lparr>self_N := Some (shape0 X), self_D := Some (shape1 X),
                  self_trained := True, self_w := Some (loc_w s)\<rparr>)"
proof -
  let ?self1 = "self\<lparr>self_N := Some (shape0 X), self_D := Some (shape1 X)\<rparr>"
  from fit_start_ok[OF assms, of randn ?self1] obtain s0 where
    st: "fit_start ?self1 X Y randn = Inr s0" by blast
  note sh = fit_start_shapes[OF st]
  have "\<exists>s'. fit_loop ?self1 (add_ones X) Y s0 = Inr s' \<and> length (loc_w s') = ncols (add_ones X) \<and>
         loc_iterations s0 \<le> loc_iterations s' \<and>
         loc_iterations s' \<le> max (loc_iterations s0) (self_max_iter ?self1)"
    using sh(1-3) by (intro fit_loop_returns) (simp_all add: shape0_def shape1_def)
  then obtain s where l: "fit_loop ?self1 (add_ones X) Y s0 = Inr s"
    and w: "length (loc_w s) = shape1 X + 1"
    by (auto simp: shape1_def)
  have "fit self X Y randn =
        Inr (loc_out s @
               (if self_show self \<and> f_lt (loc_e s) (self_error_diff self)
                then [Difference_reached_threshold]
                else if loc_iterations s < self_max_iter self
                then [Reached_max_iterations]
                else []),
             ?self1\<lparr>self_trained := True, self_w := Some (loc_w s)\<rparr>)"
    unfolding fit_def Let_def by (simp only: st l sum.case)
  then show ?thesis
    using st l w by (intro exI[of _ s0] exI[of _ s]) simp
qed

lemma cm_loop_append:
  "cm_loop T Y (is @ js) c =
     (case cm_loop T Y is c of Inl err \<Rightarrow> Inl err | Inr c' \<Rightarrow> cm_loop T Y js c')"
  by (induction "is" arbitrary: c) simp_all

lemma cm_loop_upt:
  "n \<le> length Y \<Longrightarrow>
   cm_loop T Y [0..<n] c =
     Inr \<lparr>TP = TP c + length (filter (\<lambda>i. T ! i = 0 \<and> Y ! i = 0) [0..<n]),
          FP = FP c + length (filter (\<lambda>i. T ! i \<noteq> 0 \<and> Y ! i \<noteq> 1) [0..<n]),
          TN = TN c + length (filter (\<lambda>i. T ! i \<noteq> 0 \<and> Y ! i = 1) [0..<n]),
          FN = FN c + length (filter (\<lambda>i. T ! i = 0 \<and> Y ! i \<noteq> 0) [0..<n])\<rparr>"
proof (induction n)
  case 0
  show ?case by simp
next
  case (Suc n)
  then have "n \<le> length Y" "\<not> length Y \<le> n" by simp_all
  with Suc.IH show ?case
    by (simp add: cm_loop_append)
qed

lemma confusion_matrix_values:
  "length T \<le> length Y \<Longrightarrow>
   confusion_matrix T Y True =
     Inr (Values (length (filter (\<lambda>i. T ! i = 0 \<and> Y ! i = 0) [0..<length T]),
                  length (filter (\<lambda>i. T ! i \<noteq> 0 \<and> Y ! i \<noteq> 1) [0..<length T]),
                  length (filter (\<lambda>i. T ! i = 0 \<and> Y ! i \<noteq> 0) [0..<length T]),
                  length (filter (\<lambda>i. T ! i \<noteq> 0 \<and> Y ! i = 1) [0..<length T])))"
  by (simp add: confusion_matrix_def cm_loop_upt)

lemma confusion_matrix_array:
  "length T \<le> length Y \<Longrightarrow>
   confusion_matrix T Y False =
     Inr (Array [[length (filter (\<lambda>i. T ! i = 0 \<and> Y ! i = 0) [0..<length T]),
                  length (filter (\<lambda>i. T ! i = 0 \<and> Y ! i \<noteq> 0) [0..<length T])],
                 [length (filter (\<lambda>i. T ! i \<noteq> 0 \<and> Y ! i \<noteq> 1) [0..<length T]),
                  length (filter (\<lambda>i. T ! i \<noteq> 0 \<and> Y ! i = 1) [0..<length T])]])"
  by (simp add: confusion_matrix_def cm_loop_upt)

lemma filter_upt_partition:
  "length (filter (\<lambda>i. P i \<and> Q i) [0..<n]) + length (filter (\<lambda>i. \<not> P i \<and> \<not> R i) [0..<n])
   + length (filter (\<lambda>i. P i \<and> \<not> Q i) [0..<n]) + length (filter (\<lambda>i. \<not> P i \<and> R i) [0..<n]) = n"
  by (induction n) auto

subsection \<open>The confusion matrix\<close>

text \<open>
  Claim C9. For vectors \<open>T\<close> and \<open>Y_pred\<close> of equal length, whatever their entries,
  \<open>confusion_matrix\<close> returns four counts, as the tuple \<open>(TP, FP, FN, TN)\<close> or as
  the array \<open>[[TP, FN], [FP, TN]]\<close>, and the four counts add up to \<open>len(T)\<close>.
\<close>

theorem confusion_matrix_counts_sum:
  "length Y_pred = length T \<Longrightarrow>
   \<exists>tp fp fn tn.
     confusion_matrix T Y_pred True = Inr (Values (tp, fp, fn, tn)) \<and>
     confusion_matrix T Y_pred False = Inr (Array [[tp, fn], [fp, tn]]) \<and>
     tp + fp + fn + tn = length T"
  using filter_upt_partition[of "\<lambda>i. T ! i = 0" "\<lambda>i. Y_pred ! i = 0" "length T" "\<lambda>i. Y_pred ! i = 1"]
  by (simp add: confusion_matrix_values confusion_matrix_array)

theorem confusion_matrix_counts_sum_witness:
  "length [2, 0, 7 :: int] = length [5, 0, 1 :: int] \<and>
   (\<exists>tp fp fn tn.
     confusion_matrix [5, 0, 1 :: int] [2, 0, 7 :: int] True = Inr (Values (tp, fp, fn, tn)) \<and>
     confusion_matrix [5, 0, 1 :: int] [2, 0, 7 :: int] False = Inr (Array [[tp, fn], [fp, tn]]) \<and>
     tp + fp + fn + tn = length [5, 0, 1 :: int])"
proof -
  have h: "length [2, 0, 7 :: int] = length [5, 0, 1 :: int]" by simp
  from confusion_matrix_counts_sum[OF h] show ?thesis using h by blast
qed

lemma confusion_matrix_binary:
  fixes T :: "'a::zero_neq_one list" and Y_pred :: "'b::zero_neq_one list"
  assumes "length Y_pred = length T" "set T \<subseteq> {0, 1}" "set Y_pred \<subseteq> {0, 1}"
  shows "confusion_matrix T Y_pred True =
      Inr (Values (bucket T Y_pred 0 0, bucket T Y_pred 1 0,
                   bucket T Y_pred 0 1, bucket T Y_pred 1 1))"
    and "confusion_matrix T Y_pred False =
      Inr (Array [[bucket T Y_pred 0 0, bucket T Y_pred 0 1],
                  [bucket T Y_pred 1 0, bucket T Y_pred 1 1]])"
proof -
  have t: "T ! i \<noteq> 0 \<longleftrightarrow> T ! i = 1" if "i < length T" for i
    using assms(2) nth_mem[OF that] by auto
  have y0: "Y_pred ! i \<noteq> 0 \<longleftrightarrow> Y_pred ! i = 1" if "i < length T" for i
  proof -
    have "Y_pred ! i \<in> set Y_pred" using that assms(1) by simp
    then show ?thesis using assms(3) by auto
  qed
  have y1: "Y_pred ! i \<noteq> 1 \<longleftrightarrow> Y_pred ! i = 0" if "i < length T" for i
    using y0[OF that] by auto
  have fp: "filter (\<lambda>i. T ! i \<noteq> 0 \<and> Y_pred ! i \<noteq> 1) [0..<length T] =
            filter (\<lambda>i. T ! i = 1 \<and> Y_pred ! i = 0) [0..<length T]"
    by (rule filter_cong) (auto simp: t y1)
  have fn: "filter (\<lambda>i. T ! i = 0 \<and> Y_pred ! i \<noteq> 0) [0..<length T] =
            filter (\<lambda>i. T ! i = 0 \<and> Y_pred ! i = 1) [0..<length T]"
    by (rule filter_cong) (auto simp: y0)
  have tn: "filter (\<lambda>i. T ! i \<noteq> 0 \<and> Y_pred ! i = 1) [0..<length T] =
            filter (\<lambda>i. T ! i = 1 \<and> Y_pred ! i = 1) [0..<length T]"
    by (rule filter_cong) (auto simp: t)
  have le: "length T \<le> length Y_pred" using assms(1) by simp
  show "confusion_matrix T Y_pred True =
      Inr (Values (bucket T Y_pred 0 0, bucket T Y_pred 1 0,
                   bucket T Y_pred 0 1, bucket T Y_pred 1 1))"
    unfolding confusion_matrix_values[OF le] fp fn tn bucket_def by simp
  show "confusion_matrix T Y_pred False =
      Inr (Array [[bucket T Y_pred 0 0, bucket T Y_pred 0 1],
                  [bucket T Y_pred 1 0, bucket T Y_pred 1 1]])"
    unfolding confusion_matrix_array[OF le] fp fn tn bucket_def by simp
qed

text \<open>
  Claim C1. For binary vectors \<open>T\<close> and \<open>Y_pred\<close> of equal length, \<open>TP\<close> counts
  the samples with \<open>T[i] = 0\<close> and \<open>Y_pred[i] = 0\<close>, \<open>FN\<close> those with \<open>T[i] = 0\<close>
  and \<open>Y_pred[i] = 1\<close>, \<open>TN\<close> those with \<open>T[i] = 1\<close> and \<open>Y_pred[i] = 1\<close>, and
  \<open>FP\<close> those with \<open>T[i] = 1\<close> and \<open>Y_pred[i] = 0\<close>: label 0 is the positive class.
  For \<open>T = [0, 0, 1, 1]\<close> and \<open>Y_pred = [0, 1, 1, 0]\<close> every count is 1.
\<close>

theorem confusion_matrix_buckets:
  fixes T :: "'a::zero_neq_one list" and Y_pred :: "'b::zero_neq_one list"
  assumes "length Y_pred = length T" "set T \<subseteq> {0, 1}" "set Y_pred \<subseteq> {0, 1}"
  shows "confusion_matrix T Y_pred True =
      Inr (Values (bucket T Y_pred 0 0, bucket T Y_pred 1 0,
                   bucket T Y_pred 0 1, bucket T Y_pred 1 1)) \<and>
    confusion_matrix T Y_pred False =
      Inr (Array [[bucket T Y_pred 0 0, bucket T Y_pred 0 1],
                  [bucket T Y_pred 1 0, bucket T Y_pred 1 1]]) \<and>
    confusion_matrix [0, 0, 1, 1 :: int] [0, 1, 1, 0 :: int] True = Inr (Values (1, 1, 1, 1))"
proof -
  have "confusion_matrix [0, 0, 1, 1 :: int] [0, 1, 1, 0 :: int] True = Inr (Values (1, 1, 1, 1))"
    by (simp add: confusion_matrix_def upt_rec)
  with confusion_matrix_binary[OF assms] show ?thesis by simp
qed

theorem confusion_matrix_buckets_witness:
  "length [1, 1, 0 :: int] = length [0, 1, 1 :: int] \<and>
   set [0, 1, 1 :: int] \<subseteq> {0, 1} \<and> set [1, 1, 0 :: int] \<subseteq> {0, 1} \<and>
   confusion_matrix [0, 1, 1 :: int] [1, 1, 0 :: int] True = Inr (Values (0, 1, 1, 1))"
proof -
  have h1: "length [1, 1, 0 :: int] = length [0, 1, 1 :: int]" by simp
  have h2: "set [0, 1, 1 :: int] \<subseteq> {0, 1}" by simp
  have h3: "set [1, 1, 0 :: int] \<subseteq> {0, 1}" by simp
  have b: "bucket [0, 1, 1 :: int] [1, 1, 0 :: int] 0 0 = 0"
    "bucket [0, 1, 1 :: int] [1, 1, 0 :: int] 1 0 = 1"
    "bucket [0, 1, 1 :: int] [1, 1, 0 :: int] 0 1 = 1"
    "bucket [0, 1, 1 :: int] [1, 1, 0 :: int] 1 1 = 1"
    by (simp_all add: bucket_def upt_rec)
  from confusion_matrix_buckets[OF h1 h2 h3] show ?thesis
    using h1 h2 h3 unfolding b by blast
qed

subsection \<open>Inference\<close>

lemma dot_row_ones:
  "w \<noteq> [] \<Longrightarrow> sum_list (map2 (*) (1 # r) w) = hd w + sum_list (map2 (*) r (tl (w :: vec)))"
  by (cases w) simp_all

lemma y_probab_ok:
  "self_w self = Some w \<Longrightarrow> length w = ncols X \<Longrightarrow>
   y_probab self X = Inr (map (\<lambda>r. sigmoid (sum_list (map2 (*) r w))) (rows X))"
  by (simp add: y_probab_def dot_mv_def)

lemma y_probab_err:
  "self_w self = Some w \<Longrightarrow> length w \<noteq> ncols X \<Longrightarrow> y_probab self X = Inl ValueError"
  by (simp add: y_probab_def dot_mv_def)

text \<open>
  Claim C5, as amended. \<open>y_probab\<close> does not add the intercept column: for a model whose
  weight vector \<open>w\<close> has length \<open>D + 1\<close> it returns \<open>sigmoid(X_aug . w)\<close> when it is given
  the matrix \<open>X_aug\<close> that already has the leading column of ones (row by row
  \<open>sigmoid(w[0] + x . w[1:])\<close>), as \<open>predict\<close> calls it; given the \<open>N x D\<close> matrix \<open>X\<close>
  itself, the product raises \<open>ValueError\<close>.
\<close>

theorem y_probab_expects_augmented:
  assumes "self_w self = Some w" "length w = shape1 X + 1"
  shows "y_probab self (add_ones X) =
      Inr (map (\<lambda>r. sigmoid (hd w + sum_list (map2 (*) r (tl w)))) (rows X)) \<and>
    y_probab self X = Inl ValueError"
proof -
  have ne: "w \<noteq> []" using assms(2) by auto
  have "y_probab self (add_ones X) =
      Inr (map (\<lambda>r. sigmoid (sum_list (map2 (*) r w))) (rows (add_ones X)))"
    using assms by (intro y_probab_ok) (simp_all add: shape1_def)
  then have a: "y_probab self (add_ones X) =
      Inr (map (\<lambda>r. sigmoid (hd w + sum_list (map2 (*) r (tl w)))) (rows X))"
    by (simp add: o_def dot_row_ones[OF ne])
  have b: "y_probab self X = Inl ValueError"
    using assms by (simp add: y_probab_def dot_mv_def shape1_def)
  from a b show ?thesis by simp
qed

theorem y_probab_expects_augmented_witness:
  "self_w ((init 1000 (1/100) (1/10^7) False)\<lparr>self_trained := True, self_w := Some [0, 0]\<rparr>) = Some [0, 0] \<and>
   length [0, 0 :: real] = shape1 \<lparr>ncols = 1, rows = [[3], [5]]\<rparr> + 1 \<and>
   y_probab ((init 1000 (1/100) (1/10^7) False)\<lparr>self_trained := True, self_w := Some [0, 0]\<rparr>)
     (add_ones \<lparr>ncols = 1, rows = [[3], [5]]\<rparr>) = Inr [1/2, 1/2] \<and>
   y_probab ((init 1000 (1/100) (1/10^7) False)\<lparr>self_trained := True, self_w := Some [0, 0]\<rparr>)
     \<lparr>ncols = 1, rows = [[3], [5]]\<rparr> = Inl ValueError"
proof -
  let ?m = "(init 1000 (1/100) (1/10^7) False)\<lparr>self_trained := True, self_w := Some [0, 0]\<rparr>"
  let ?X = "\<lparr>ncols = 1, rows = [[3], [5]]\<rparr> :: matrix"
  have h1: "self_w ?m = Some [0, 0]" by simp
  have h2: "length [0, 0 :: real] = shape1 ?X + 1" by (simp add: shape1_def)
  from y_probab_expects_augmented[OF h1 h2] show ?thesis
    using h1 h2 by (simp add: sigmoid_def)
qed

theorem y_probab_does_not_augment_counterexample:
  "y_probab ((init 1000 (1/100) (1/10^7) False)\<lparr>self_trained := True, self_w := Some [0, 0]\<rparr>)
     \<lparr>ncols = 1, rows = [[1], [2]]\<rparr> = Inl ValueError"
  by (simp add: y_probab_def dot_mv_def)

text \<open>
  Claim C8, as amended. For a trained model whose weight vector has one entry more than
  \<open>X\<close> has columns, \<open>predict(X, p)\<close> returns a list with one label per row of \<open>X\<close>: 0
  where the predicted probability of the row is strictly below \<open>p\<close>, 1 otherwise;
  every entry is 0 or 1.
\<close>

theorem predict_labels:
  assumes "self_trained self" "self_w self = Some w" "length w = shape1 X + 1"
  shows "\<exists>probs ys.
      y_probab self (add_ones X) = Inr probs \<and>
      predict self X p = Inr ([], Some ys) \<and>
      length ys = shape0 X \<and>
      (\<forall>i<shape0 X. ys ! i = (if probs ! i < p then 0 else 1)) \<and>
      set ys \<subseteq> {0, 1}"
proof -
  let ?probs = "map (\<lambda>r. sigmoid (sum_list (map2 (*) r w))) (rows (add_ones X))"
  let ?ys = "map (\<lambda>i. if i < p then 0 else 1 :: int) ?probs"
  have y: "y_probab self (add_ones X) = Inr ?probs"
    using assms by (intro y_probab_ok) (simp_all add: shape1_def)
  have "predict self X p = Inr ([], Some ?ys)"
    using assms(1) by (simp add: predict_def y)
  moreover have "length ?ys = shape0 X" by (simp add: shape0_def)
  moreover have "\<forall>i<shape0 X. ?ys ! i = (if ?probs ! i < p then 0 else 1)"
    by (simp add: shape0_def)
  moreover have "set ?ys \<subseteq> {0, 1}" by auto
  ultimately show ?thesis using y by blast
qed

theorem predict_labels_witness:
  "self_trained ((init 1000 (1/100) (1/10^7) False)\<lparr>self_trained := True, self_w := Some [0, 0]\<rparr>) \<and>
   self_w ((init 1000 (1/100) (1/10^7) False)\<lparr>self_trained := True, self_w := Some [0, 0]\<rparr>) = Some [0, 0] \<and>
   length [0, 0 :: real] = shape1 \<lparr>ncols = 1, rows = [[3], [5]]\<rparr> + 1 \<and>
   (\<exists>probs ys.
      y_probab ((init 1000 (1/100) (1/10^7) False)\<lparr>self_trained := True, self_w := Some [0, 0]\<rparr>)
        (add_ones \<lparr>ncols = 1, rows = [[3], [5]]\<rparr>) = Inr probs \<and>
      predict ((init 1000 (1/100) (1/10^7) False)\<lparr>self_trained := True, self_w := Some [0, 0]\<rparr>)
        \<lparr>ncols = 1, rows = [[3], [5]]\<rparr> (1/2) = Inr ([], Some ys) \<and>
      length ys = shape0 \<lparr>ncols = 1, rows = [[3], [5]]\<rparr> \<and>
      (\<forall>i<shape0 \<lparr>ncols = 1, rows = [[3], [5]]\<rparr>. ys ! i = (if probs ! i < 1/2 then 0 else 1)) \<and>
      set ys \<subseteq> {0, 1})"
proof -
  let ?m = "(init 1000 (1/100) (1/10^7) False)\<lparr>self_trained := True, self_w := Some [0, 0]\<rparr>"
  let ?X = "\<lparr>ncols = 1, rows = [[3], [5]]\<rparr> :: matrix"
  have h1: "self_trained ?m" by simp
  have h2: "self_w ?m = Some [0, 0]" by simp
  have h3: "length [0, 0 :: real] = shape1 ?X + 1" by (simp add: shape1_def)
  from predict_labels[OF h1 h2 h3, of "1/2"] show ?thesis
    using h1 h2 h3 by blast
qed

text \<open>
  A trained model with two weights and a matrix of two columns: \<open>predict\<close> returns no
  label vector, the product in \<open>y_probab\<close> raises \<open>ValueError\<close>.
\<close>

theorem predict_width_mismatch_counterexample:
  "predict ((init 1000 (1/100) (1/10^7) False)\<lparr>self_trained := True, self_w := Some [0, 0]\<rparr>)
     \<lparr>ncols = 2, rows = [[1, 2], [3, 4]]\<rparr> (1/2) = Inl ValueError"
  by (simp add: predict_def y_probab_def dot_mv_def)

text \<open>
  Claim C6 at the failing input: on a fresh model \<open>predict\<close> and \<open>get_coef\<close> print
  \<open>Model not trained.\<close> and return \<open>None\<close>, but \<open>y_probab\<close> has no such guard; it
  prints nothing and raises \<open>TypeError\<close> from the product with \<open>self.w = None\<close>.
\<close>

theorem y_probab_untrained_raises:
  "y_probab (init 1000 (1/100) (1/10^7) False) \<lparr>ncols = 1, rows = [[1]]\<rparr> = Inl TypeError \<and>
   predict (init 1000 (1/100) (1/10^7) False) \<lparr>ncols = 1, rows = [[1]]\<rparr> (1/2) =
     Inr ([Model_not_trained], None) \<and>
   get_coef (init 1000 (1/100) (1/10^7) False) = ([Model_not_trained], None)"
  by (simp add: y_probab_def predict_def get_coef_def init_def)


subsection \<open>One pass through the loop of \<open>fit\<close>\<close>





subsection \<open>Termination of the loop of \<open>fit\<close>\<close>

lemma f_gt_iff: "f_gt e d \<longleftrightarrow> e = PosInf \<or> (\<exists>x. e = Finite x \<and> d < x)"
  by (cases e) auto

lemma not_f_gt_iff:
  "\<not> f_gt e d \<longleftrightarrow> e = NaN \<or> e = NegInf \<or> (\<exists>x. e = Finite x \<and> x \<le> d)"
  by (cases e) auto

lemma fit_loop_run:
  assumes "length Y = shape0 X" "length (loc_y_prob s) = shape0 X"
    "length (loc_w s) = shape1 X + 1"
  shows "\<exists>s'. fit_loop self (add_ones X) Y s = Inr s' \<and>
      \<not> (loc_iterations s' < self_max_iter self \<and> f_gt (loc_e s') (self_error_diff self)) \<and>
      (loc_iterations s < self_max_iter self \<and> f_gt (loc_e s) (self_error_diff self) \<longrightarrow>
         loc_iterations s < loc_iterations s' \<and> loc_iterations s' \<le> self_max_iter self) \<and>
      (\<not> (loc_iterations s < self_max_iter self \<and> f_gt (loc_e s) (self_error_diff self)) \<longrightarrow>
         s' = s)"
proof (cases "loc_iterations s < self_max_iter self \<and> f_gt (loc_e s) (self_error_diff self)")
  case False
  have "fit_loop self (add_ones X) Y s = Inr s"
    by (rule fit_loop_stop[OF False])
  with False show ?thesis by blast
next
  case True
  let ?Xa = "add_ones X"
  have sh: "length Y = length (rows ?Xa)" "length (loc_y_prob s) = length (rows ?Xa)"
    "length (loc_w s) = ncols ?Xa"
    using assms by (simp_all add: shape0_def shape1_def)
  from fit_body_shapes[OF sh, of self] obtain s1 where
    b: "fit_body self ?Xa Y s = Inr s1" and
    sh1: "length (loc_y_prob s1) = length (rows ?Xa)" "length (loc_w s1) = ncols ?Xa"
    by blast
  let ?s2 = "s1\<lparr>loc_iterations := loc_iterations s + 1\<rparr>"
  have sh2: "length (loc_y_prob ?s2) = length (rows ?Xa)" "length (loc_w ?s2) = ncols ?Xa"
    using sh1 by simp_all
  from fit_loop_returns[OF sh(1) sh2, of self] obtain s' where
    r: "fit_loop self ?Xa Y ?s2 = Inr s'"
       "loc_iterations ?s2 \<le> loc_iterations s'"
       "loc_iterations s' \<le> max (loc_iterations ?s2) (self_max_iter self)"
    by blast
  have l: "fit_loop self ?Xa Y s = Inr s'"
    using fit_loop_step[OF True b] r(1) by simp
  have "loc_iterations s < loc_iterations s'" using r(2) by simp
  moreover have "loc_iterations s' \<le> self_max_iter self"
    using r(3) True by simp
  moreover note fit_loop_exit[OF l]
  ultimately show ?thesis using l True by blast
qed

text \<open>
  Where the loss leaves the finite numbers: a probability of exactly 1 for a label 1
  gives \<open>0 * log(0)\<close>, which is NaN; a probability of exactly 0 for a label 1 gives
  \<open>+inf\<close>. A loss difference computed from NaN is NaN.
\<close>

lemma cross_entropy_saturated:
  "cross_entropy [1] [1] = Inr NaN" "cross_entropy [1] [0] = Inr PosInf"
  "f_sub NaN l = NaN" "f_sub l NaN = NaN"
  by (simp_all add: cross_entropy_def dot_vv_def f_log_def f_sub_def) (cases l, simp_all)+

text \<open>
  Claim C4, as amended. The loop of \<open>fit\<close> runs while \<open>iterations < max_iter\<close> and
  \<open>e > error_diff\<close>. It stops at once in a state where the counter has reached
  \<open>max_iter\<close> or the test \<open>e > error_diff\<close> fails: \<open>e\<close> is at or below \<open>error_diff\<close>
  (negative when the loss went up), or \<open>e\<close> is NaN, for which every comparison is
  false. From every state of consistent shapes it returns, in a state where it stops;
  if the condition held at the start, at least one pass has run and the counter is at
  most \<open>max_iter\<close>. From the counter 1 and \<open>e = 1\<close> that \<open>fit\<close> starts with, the first
  pass runs exactly when \<open>1 < max_iter\<close> and \<open>error_diff < 1\<close>; otherwise the loop
  leaves the state as it is.
\<close>

theorem fit_loop_terminates:
  "(self_max_iter self \<le> loc_iterations s \<or> loc_e s = NaN \<or> loc_e s = NegInf \<or>
      (\<exists>x. loc_e s = Finite x \<and> x \<le> self_error_diff self) \<longrightarrow>
    fit_loop self Xa Y s = Inr s) \<and>
   (length Y = shape0 X \<and> length (loc_y_prob s) = shape0 X \<and> length (loc_w s) = shape1 X + 1 \<longrightarrow>
    (\<exists>s'. fit_loop self (add_ones X) Y s = Inr s' \<and>
       (self_max_iter self \<le> loc_iterations s' \<or> loc_e s' = NaN \<or> loc_e s' = NegInf \<or>
          (\<exists>x. loc_e s' = Finite x \<and> x \<le> self_error_diff self)) \<and>
       (loc_iterations s < self_max_iter self \<and>
          (loc_e s = PosInf \<or> (\<exists>x. loc_e s = Finite x \<and> self_error_diff self < x)) \<longrightarrow>
        loc_iterations s < loc_iterations s' \<and> loc_iterations s' \<le> self_max_iter self) \<and>
       (loc_iterations s = 1 \<and> loc_e s = Finite 1 \<longrightarrow>
        (if 1 < self_max_iter self \<and> self_error_diff self < 1
         then 2 \<le> loc_iterations s' \<and> loc_iterations s' \<le> self_max_iter self
         else s' = s))))"
proof (intro conjI impI)
  assume "self_max_iter self \<le> loc_iterations s \<or> loc_e s = NaN \<or> loc_e s = NegInf \<or>
      (\<exists>x. loc_e s = Finite x \<and> x \<le> self_error_diff self)"
  then have "\<not> (loc_iterations s < self_max_iter self \<and> f_gt (loc_e s) (self_error_diff self))"
    by (auto simp: not_f_gt_iff)
  then show "fit_loop self Xa Y s = Inr s" by (rule fit_loop_stop)
next
  assume a: "length Y = shape0 X \<and> length (loc_y_prob s) = shape0 X \<and>
    length (loc_w s) = shape1 X + 1"
  then have sh: "length Y = shape0 X" "length (loc_y_prob s) = shape0 X"
    "length (loc_w s) = shape1 X + 1" by simp_all
  from fit_loop_run[OF sh, of self] obtain s' where
    l: "fit_loop self (add_ones X) Y s = Inr s'" and
    e: "\<not> (loc_iterations s' < self_max_iter self \<and> f_gt (loc_e s') (self_error_diff self))" and
    c: "loc_iterations s < self_max_iter self \<and> f_gt (loc_e s) (self_error_diff self) \<longrightarrow>
         loc_iterations s < loc_iterations s' \<and> loc_iterations s' \<le> self_max_iter self" and
    n: "\<not> (loc_iterations s < self_max_iter self \<and> f_gt (loc_e s) (self_error_diff self)) \<longrightarrow>
         s' = s"
    by blast
  have 1: "self_max_iter self \<le> loc_iterations s' \<or> loc_e s' = NaN \<or> loc_e s' = NegInf \<or>
          (\<exists>x. loc_e s' = Finite x \<and> x \<le> self_error_diff self)"
    using e by (auto simp: not_f_gt_iff)
  have 2: "loc_iterations s < self_max_iter self \<and>
          (loc_e s = PosInf \<or> (\<exists>x. loc_e s = Finite x \<and> self_error_diff self < x)) \<longrightarrow>
        loc_iterations s < loc_iterations s' \<and> loc_iterations s' \<le> self_max_iter self"
    using c by (simp add: f_gt_iff)
  have 3: "loc_iterations s = 1 \<and> loc_e s = Finite 1 \<longrightarrow>
        (if 1 < self_max_iter self \<and> self_error_diff self < 1
         then 2 \<le> loc_iterations s' \<and> loc_iterations s' \<le> self_max_iter self
         else s' = s)"
  proof
    assume st: "loc_iterations s = 1 \<and> loc_e s = Finite 1"
    show "if 1 < self_max_iter self \<and> self_error_diff self < 1
         then 2 \<le> loc_iterations s' \<and> loc_iterations s' \<le> self_max_iter self
         else s' = s"
    proof (cases "1 < self_max_iter self \<and> self_error_diff self < 1")
      case True
      then have "loc_iterations s < self_max_iter self \<and> f_gt (loc_e s) (self_error_diff self)"
        using st by simp
      with c have "2 \<le> loc_iterations s' \<and> loc_iterations s' \<le> self_max_iter self"
        using st by simp
      then show ?thesis unfolding if_P[OF True] .
    next
      case False
      then have "\<not> (loc_iterations s < self_max_iter self \<and> f_gt (loc_e s) (self_error_diff self))"
        using st by simp
      with n have "s' = s" by simp
      then show ?thesis unfolding if_not_P[OF False] .
    qed
  qed
  from l 1 2 3 show "\<exists>s'. fit_loop self (add_ones X) Y s = Inr s' \<and>
       (self_max_iter self \<le> loc_iterations s' \<or> loc_e s' = NaN \<or> loc_e s' = NegInf \<or>
          (\<exists>x. loc_e s' = Finite x \<and> x \<le> self_error_diff self)) \<and>
       (loc_iterations s < self_max_iter self \<and>
          (loc_e s = PosInf \<or> (\<exists>x. loc_e s = Finite x \<and> self_error_diff self < x)) \<longrightarrow>
        loc_iterations s < loc_iterations s' \<and> loc_iterations s' \<le> self_max_iter self) \<and>
       (loc_iterations s = 1 \<and> loc_e s = Finite 1 \<longrightarrow>
        (if 1 < self_max_iter self \<and> self_error_diff self < 1
         then 2 \<le> loc_iterations s' \<and> loc_iterations s' \<le> self_max_iter self
         else s' = s))"
    by blast
qed

text \<open>
  Two instances: a state with \<open>e\<close> NaN below the iteration cap, where the loop stops
  although neither the cap is reached nor \<open>e\<close> is at or below \<open>error_diff\<close>; and the
  start values of \<open>fit\<close> under the default parameters, where the first pass runs.
\<close>

theorem fit_loop_terminates_witness:
  "fit_loop (init 1000 (1/100) (1/10^7) False) (add_ones \<lparr>ncols = 1, rows = [[2]]\<rparr>) [1]
      \<lparr>loc_w = [1/20, 1/10], loc_iterations = 2, loc_y_prob = [1/2], loc_e = NaN,
       loc_e_prev = NaN, loc_out = []\<rparr> =
     Inr \<lparr>loc_w = [1/20, 1/10], loc_iterations = 2, loc_y_prob = [1/2], loc_e = NaN,
          loc_e_prev = NaN, loc_out = []\<rparr> \<and>
   length [1 :: real] = shape0 \<lparr>ncols = 1, rows = [[2]]\<rparr> \<and>
   length [1/2 :: real] = shape0 \<lparr>ncols = 1, rows = [[2]]\<rparr> \<and>
   length [0, 0 :: real] = shape1 \<lparr>ncols = 1, rows = [[2]]\<rparr> + 1 \<and>
   (\<exists>s'. fit_loop (init 1000 (1/100) (1/10^7) False) (add_ones \<lparr>ncols = 1, rows = [[2]]\<rparr>) [1]
            \<lparr>loc_w = [0, 0], loc_iterations = 1, loc_y_prob = [1/2], loc_e = Finite 1,
             loc_e_prev = Finite (7/10), loc_out = []\<rparr> = Inr s' \<and>
        (1000 \<le> loc_iterations s' \<or> loc_e s' = NaN \<or> loc_e s' = NegInf \<or>
           (\<exists>x. loc_e s' = Finite x \<and> x \<le> 1/10^7)) \<and>
        2 \<le> loc_iterations s' \<and> loc_iterations s' \<le> 1000)"
proof -
  let ?X = "\<lparr>ncols = 1, rows = [[2]]\<rparr> :: matrix"
  let ?s = "\<lparr>loc_w = [0, 0], loc_iterations = 1, loc_y_prob = [1/2], loc_e = Finite 1,
             loc_e_prev = Finite (7/10), loc_out = []\<rparr>"
  let ?n = "\<lparr>loc_w = [1/20, 1/10], loc_iterations = 2, loc_y_prob = [1/2], loc_e = NaN,
             loc_e_prev = NaN, loc_out = []\<rparr>"
  let ?m = "init 1000 (1/100) (1/10^7) False"
  have hn: "self_max_iter ?m \<le> loc_iterations ?n \<or> loc_e ?n = NaN \<or> loc_e ?n = NegInf \<or>
      (\<exists>x. loc_e ?n = Finite x \<and> x \<le> self_error_diff ?m)"
    by simp
  from fit_loop_terminates[where self = ?m and s = ?n and Xa = "add_ones ?X" and Y = "[1]",
      THEN conjunct1, rule_format, OF hn]
  have p1: "fit_loop ?m (add_ones ?X) [1] ?n = Inr ?n" .
  have h: "length [1 :: real] = shape0 ?X \<and> length (loc_y_prob ?s) = shape0 ?X \<and>
    length (loc_w ?s) = shape1 ?X + 1"
    by (simp add: shape0_def shape1_def)
  have c: "1 < self_max_iter ?m \<and> self_error_diff ?m < 1" by (simp add: init_def)
  have st: "loc_iterations ?s = 1 \<and> loc_e ?s = Finite 1" by simp
  from fit_loop_terminates[where self = ?m and s = ?s and X = ?X and Y = "[1]",
      THEN conjunct2, rule_format, OF h]
  obtain s' where
    r: "fit_loop ?m (add_ones ?X) [1] ?s = Inr s'"
       "self_max_iter ?m \<le> loc_iterations s' \<or> loc_e s' = NaN \<or> loc_e s' = NegInf \<or>
          (\<exists>x. loc_e s' = Finite x \<and> x \<le> self_error_diff ?m)"
       "loc_iterations ?s = 1 \<and> loc_e ?s = Finite 1 \<longrightarrow>
        (if 1 < self_max_iter ?m \<and> self_error_diff ?m < 1
         then 2 \<le> loc_iterations s' \<and> loc_iterations s' \<le> self_max_iter ?m
         else s' = ?s)"
    by blast
  from r(3) st have "2 \<le> loc_iterations s' \<and> loc_iterations s' \<le> self_max_iter ?m"
    unfolding if_P[OF c] by blast
  with r(1,2) have p2: "\<exists>s'. fit_loop ?m (add_ones ?X) [1] ?s = Inr s' \<and>
        (1000 \<le> loc_iterations s' \<or> loc_e s' = NaN \<or> loc_e s' = NegInf \<or>
           (\<exists>x. loc_e s' = Finite x \<and> x \<le> 1/10^7)) \<and>
        2 \<le> loc_iterations s' \<and> loc_iterations s' \<le> 1000"
    by (intro exI[of _ s']) (simp add: init_def)
  from p1 h p2 show ?thesis by simp
qed

text \<open>
  With \<open>max_iter = 1\<close> the first pass does not run: \<open>fit\<close> returns with the initial
  weights, here \<open>0.01 * [0, 0]\<close>, although the gradient at them is not zero.
\<close>

theorem fit_first_iteration_counterexample:
  "fit (init 1 (1/100) (1/10^7) False) \<lparr>ncols = 1, rows = [[2]]\<rparr> [1] (\<lambda>k. 0) =
     Inr ([], \<lparr>self_D = Some 1, self_trained = True, self_max_iter = 1, self_a = 1/100,
               self_w = Some [0, 0], self_N = Some 1, self_error_diff = 1/10^7,
               self_show = False\<rparr>)"
  by (simp add: fit_def fit_start_def Let_def dot_mv_def cross_entropy_def dot_vv_def scale_def
      shape0_def shape1_def init_def fit_loop_stop upt_rec)

subsection \<open>Shape mismatches\<close>

text \<open>
  Claim C7, as amended. Neither \<open>fit\<close> nor \<open>predict\<close> checks shapes at entry; a
  mismatch surfaces as the \<open>ValueError\<close> of a numpy product. When the label vector's
  length differs from the row count of \<open>X\<close>, \<open>fit\<close> raises it in the first
  \<open>cross_entropy\<close>, after \<open>self.N\<close> and \<open>self.D\<close> have been assigned and leaving
  \<open>trained\<close> and \<open>w\<close> as they were. When a trained model's weight vector does not have
  one entry more than \<open>X\<close> has columns, \<open>predict\<close> raises it in \<open>y_probab\<close>.
\<close>

theorem shape_mismatch_raises_ValueError:
  "(length Y \<noteq> shape0 X \<longrightarrow>
      fit self X Y randn =
        Inl (ValueError, self\<lparr>self_N := Some (shape0 X), self_D := Some (shape1 X)\<rparr>)) \<and>
   (self_trained self \<and> self_w self = Some w \<and> length w \<noteq> shape1 X + 1 \<longrightarrow>
      predict self X p = Inl ValueError)"
proof (intro conjI impI)
  assume "length Y \<noteq> shape0 X"
  then show "fit self X Y randn =
      Inl (ValueError, self\<lparr>self_N := Some (shape0 X), self_D := Some (shape1 X)\<rparr>)"
    by (rule fit_mismatch)
next
  assume a: "self_trained self \<and> self_w self = Some w \<and> length w \<noteq> shape1 X + 1"
  then have "y_probab self (add_ones X) = Inl ValueError"
    by (intro y_probab_err[of self w]) (simp_all add: shape1_def)
  with a show "predict self X p = Inl ValueError"
    by (simp add: predict_def)
qed

theorem shape_mismatch_raises_ValueError_witness:
  "length [0, 1, 0 :: real] \<noteq> shape0 \<lparr>ncols = 1, rows = [[1], [2]]\<rparr> \<and>
   fit (init 1000 (1/100) (1/10^7) False) \<lparr>ncols = 1, rows = [[1], [2]]\<rparr> [0, 1, 0] (\<lambda>k. 1) =
     Inl (ValueError, (init 1000 (1/100) (1/10^7) False)\<lparr>self_N := Some 2, self_D := Some 1\<rparr>) \<and>
   self_trained ((init 1000 (1/100) (1/10^7) False)\<lparr>self_trained := True, self_w := Some [0, 0]\<rparr>) \<and>
   self_w ((init 1000 (1/100) (1/10^7) False)\<lparr>self_trained := True, self_w := Some [0, 0]\<rparr>) = Some [0, 0] \<and>
   length [0, 0 :: real] \<noteq> shape1 \<lparr>ncols = 2, rows = [[1, 2]]\<rparr> + 1 \<and>
   predict ((init 1000 (1/100) (1/10^7) False)\<lparr>self_trained := True, self_w := Some [0, 0]\<rparr>)
     \<lparr>ncols = 2, rows = [[1, 2]]\<rparr> (1/2) = Inl ValueError"
proof -
  let ?X = "\<lparr>ncols = 1, rows = [[1], [2]]\<rparr> :: matrix"
  let ?Xw = "\<lparr>ncols = 2, rows = [[1, 2]]\<rparr> :: matrix"
  let ?fresh = "init 1000 (1/100) (1/10^7) False"
  let ?m = "?fresh\<lparr>self_trained := True, self_w := Some [0, 0]\<rparr>"
  have h1: "length [0, 1, 0 :: real] \<noteq> shape0 ?X" by (simp add: shape0_def)
  have h2: "self_trained ?m \<and> self_w ?m = Some [0, 0] \<and> length [0, 0 :: real] \<noteq> shape1 ?Xw + 1"
    by (simp add: shape1_def)
  have s: "shape0 ?X = 2" "shape1 ?X = 1" by (simp_all add: shape0_def shape1_def)
  from shape_mismatch_raises_ValueError[where Y = "[0, 1, 0]" and X = ?X and self = ?fresh and randn = "\<lambda>k. 1"] h1
  have a: "fit ?fresh ?X [0, 1, 0] (\<lambda>k. 1) =
      Inl (ValueError, ?fresh\<lparr>self_N := Some 2, self_D := Some 1\<rparr>)"
    unfolding s by blast
  from shape_mismatch_raises_ValueError[where X = ?Xw and self = ?m and w = "[0, 0]" and p = "1/2"] h2
  have b: "predict ?m ?Xw (1/2) = Inl ValueError" by blast
  show ?thesis using h1 h2 a b by blast
qed

text \<open>
  A feature matrix of 5 rows with 4 labels: \<open>fit\<close> fails, but with numpy's
  \<open>ValueError\<close> and only after it has assigned \<open>self.N = 5\<close> and \<open>self.D = 1\<close>.
\<close>

theorem fit_no_entry_check_counterexample:
  "fit (init 1000 (1/100) (1/10^7) False)
       \<lparr>ncols = 1, rows = [[1], [2], [3], [4], [5]]\<rparr> [0, 0, 1, 1] (\<lambda>k. 0) =
     Inl (ValueError,
          \<lparr>self_D = Some 1, self_trained = False, self_max_iter = 1000, self_a = 1/100,
           self_w = None, self_N = Some 5, self_error_diff = 1/10^7, self_show = False\<rparr>)"
  by (simp add: fit_mismatch shape0_def shape1_def init_def)


subsection \<open>The trained flag\<close>

lemma after_call_keeps_trained:
  "self_trained self \<Longrightarrow> self_trained (after_call self c)"
proof (cases c)
  case (Fit X Y randn)
  show "self_trained self \<Longrightarrow> self_trained (after_call self c)"
  proof (cases "length Y = shape0 X")
    case True
    from fit_match[OF True, of self randn] show "self_trained self \<Longrightarrow> ?thesis"
      unfolding Fit by auto
  next
    case False
    from fit_mismatch[OF False, of self randn] show "self_trained self \<Longrightarrow> ?thesis"
      unfolding Fit by simp
  qed
qed simp_all

lemma fit_start_pins:
  assumes "fit_start self X Y randn = Inr s0"
  shows "\<exists>z. dot_mv (add_ones X) (loc_w s0) = Inr z \<and> loc_y_prob s0 = map sigmoid z \<and>
    cross_entropy Y (loc_y_prob s0) = Inr (loc_e_prev s0)"
proof -
  have l: "length Y = shape0 X" by (rule fit_start_shapes(1)[OF assms])
  from fit_start_ok[OF l, of randn self] assms show ?thesis by auto
qed

text \<open>
  Claim C10, as amended. A call to \<open>fit\<close> that returns ends with \<open>trained = True\<close> and
  \<open>w\<close> the weights the loop ended with, whichever way the loop was left: the loop
  started in the state \<open>fit\<close> builds (the weights \<open>0.01 * randn\<close>, the counter 1,
  \<open>e = 1\<close>, the probabilities and the loss of these weights). \<open>fit\<close> returns exactly
  when the label vector has as many entries as \<open>X\<close> has rows; otherwise it raises
  \<open>ValueError\<close> before the two assignments, so \<open>trained\<close> and \<open>w\<close> stay as they were
  and a fresh model stays untrained. Once \<open>trained\<close> is \<open>True\<close>, no operation of the
  class, returning or raising, makes it \<open>False\<close>.
\<close>

theorem fit_sets_trained:
  "(\<forall>out self'. fit self X Y randn = Inr (out, self') \<longrightarrow>
      self_trained self' \<and>
      (\<exists>s0 s z.
          fit_start (self\<lparr>self_N := Some (shape0 X), self_D := Some (shape1 X)\<rparr>) X Y randn = Inr s0 \<and>
          loc_w s0 = scale 0.01 (map randn [0..<shape1 X + 1]) \<and>
          loc_iterations s0 = 1 \<and> loc_e s0 = Finite 1 \<and>
          dot_mv (add_ones X) (loc_w s0) = Inr z \<and> loc_y_prob s0 = map sigmoid z \<and>
          cross_entropy Y (loc_y_prob s0) = Inr (loc_e_prev s0) \<and>
          fit_loop (self\<lparr>self_N := Some (shape0 X), self_D := Some (shape1 X)\<rparr>)
            (add_ones X) Y s0 = Inr s \<and>
          self_w self' = Some (loc_w s) \<and> length (loc_w s) = shape1 X + 1)) \<and>
   ((\<exists>out self'. fit self X Y randn = Inr (out, self')) \<longleftrightarrow> length Y = shape0 X) \<and>
   (\<forall>err self'. fit self X Y randn = Inl (err, self') \<longrightarrow>
      err = ValueError \<and> self_trained self' = self_trained self \<and> self_w self' = self_w self) \<and>
   (self_trained self \<longrightarrow> self_trained (after_call self c))"
proof (cases "length Y = shape0 X")
  case True
  let ?self1 = "self\<lparr>self_N := Some (shape0 X), self_D := Some (shape1 X)\<rparr>"
  from fit_match[OF True, of self randn] obtain s0 s where
    st: "fit_start ?self1 X Y randn = Inr s0" and
    lp: "fit_loop ?self1 (add_ones X) Y s0 = Inr s" and
    lw: "length (loc_w s) = shape1 X + 1" and
    f: "fit self X Y randn =
        Inr (loc_out s @
               (if self_show self \<and> f_lt (loc_e s) (self_error_diff self)
                then [Difference_reached_threshold]
                else if loc_iterations s < self_max_iter self
                then [Reached_max_iterations]
                else []),
             self\<lparr>self_N := Some (shape0 X), self_D := Some (shape1 X),
                  self_trained := True, self_w := Some (loc_w s)\<rparr>)"
    by blast
  note sh = fit_start_shapes[OF st]
  from fit_start_pins[OF st] obtain z where
    z: "dot_mv (add_ones X) (loc_w s0) = Inr z" "loc_y_prob s0 = map sigmoid z"
       "cross_entropy Y (loc_y_prob s0) = Inr (loc_e_prev s0)"
    by blast
  have "self_trained self' \<and>
      (\<exists>s0 s z.
          fit_start ?self1 X Y randn = Inr s0 \<and>
          loc_w s0 = scale 0.01 (map randn [0..<shape1 X + 1]) \<and>
          loc_iterations s0 = 1 \<and> loc_e s0 = Finite 1 \<and>
          dot_mv (add_ones X) (loc_w s0) = Inr z \<and> loc_y_prob s0 = map sigmoid z \<and>
          cross_entropy Y (loc_y_prob s0) = Inr (loc_e_prev s0) \<and>
          fit_loop ?self1 (add_ones X) Y s0 = Inr s \<and>
          self_w self' = Some (loc_w s) \<and> length (loc_w s) = shape1 X + 1)"
    if "fit self X Y randn = Inr (out, self')" for out self'
  proof -
    from that f have "self' = self\<lparr>self_N := Some (shape0 X), self_D := Some (shape1 X),
                  self_trained := True, self_w := Some (loc_w s)\<rparr>" by simp
    then have "self_trained self'" "self_w self' = Some (loc_w s)" by simp_all
    with st sh(4,5,6) z lp lw show ?thesis by blast
  qed
  moreover have "(\<exists>out self'. fit self X Y randn = Inr (out, self')) \<longleftrightarrow> length Y = shape0 X"
    using True f by simp
  moreover have "\<forall>err self'. fit self X Y randn = Inl (err, self') \<longrightarrow>
      err = ValueError \<and> self_trained self' = self_trained self \<and> self_w self' = self_w self"
    using f by simp
  ultimately show ?thesis
    using after_call_keeps_trained[of self c] by blast
next
  case False
  have f: "fit self X Y randn =
      Inl (ValueError, self\<lparr>self_N := Some (shape0 X), self_D := Some (shape1 X)\<rparr>)"
    by (rule fit_mismatch[OF False])
  show ?thesis
    using False after_call_keeps_trained[of self c] unfolding f by simp
qed

theorem fit_sets_trained_witness:
  "(\<exists>out self'. fit (init 1000 (1/100) (1/10^7) False) \<lparr>ncols = 1, rows = [[2]]\<rparr> [1] (\<lambda>k. 0) =
        Inr (out, self') \<and>
      self_trained self' \<and> (\<exists>w. self_w self' = Some w \<and> length w = 2)) \<and>
   (\<exists>err self'. fit (init 1000 (1/100) (1/10^7) False) \<lparr>ncols = 1, rows = [[2]]\<rparr> [1, 0] (\<lambda>k. 0) =
        Inl (err, self') \<and>
      err = ValueError \<and> \<not> self_trained self' \<and> self_w self' = None) \<and>
   self_trained ((init 1000 (1/100) (1/10^7) False)\<lparr>self_trained := True, self_w := Some [0, 0]\<rparr>) \<and>
   self_trained (after_call
     ((init 1000 (1/100) (1/10^7) False)\<lparr>self_trained := True, self_w := Some [0, 0]\<rparr>)
     (Fit \<lparr>ncols = 1, rows = [[2]]\<rparr> [1, 0] (\<lambda>k. 0)))"
proof -
  let ?X = "\<lparr>ncols = 1, rows = [[2]]\<rparr> :: matrix"
  let ?fresh = "init 1000 (1/100) (1/10^7) False"
  let ?tr = "?fresh\<lparr>self_trained := True, self_w := Some [0, 0]\<rparr>"
  let ?r = "\<lambda>k::nat. 0::real"
  have sh: "shape0 ?X = 1" "shape1 ?X = 1" by (simp_all add: shape0_def shape1_def)
  note t1 = fit_sets_trained[where self = ?fresh and X = ?X and Y = "[1]" and randn = ?r]
  have "length [1::real] = shape0 ?X" by (simp add: shape0_def)
  with t1 obtain out self' where f1: "fit ?fresh ?X [1] ?r = Inr (out, self')" by blast
  from t1[THEN conjunct1, rule_format, OF f1]
  have a: "self_trained self' \<and> (\<exists>w. self_w self' = Some w \<and> length w = 2)"
    unfolding sh by auto
  note t2 = fit_sets_trained[where self = ?fresh and X = ?X and Y = "[1, 0]" and randn = ?r]
  have "length [1, 0::real] \<noteq> shape0 ?X" by (simp add: shape0_def)
  with t2 have "\<not> (\<exists>out self'. fit ?fresh ?X [1, 0] ?r = Inr (out, self'))" by blast
  then obtain err self2 where f2: "fit ?fresh ?X [1, 0] ?r = Inl (err, self2)"
    by (cases "fit ?fresh ?X [1, 0] ?r") auto
  from t2[THEN conjunct2, THEN conjunct2, THEN conjunct1, rule_format, OF f2]
  have b: "err = ValueError \<and> \<not> self_trained self2 \<and> self_w self2 = None"
    by (simp add: init_def)
  have c: "self_trained ?tr" by simp
  with fit_sets_trained[where self = ?tr and c = "Fit ?X [1, 0] ?r"]
  have d: "self_trained (after_call ?tr (Fit ?X [1, 0] ?r))" by blast
  from f1 a f2 b c d show ?thesis by blast
qed

text \<open>
  A fresh model, two rows and three labels: \<open>fit\<close> raises and the model is still
  untrained, with \<open>w = None\<close>.
\<close>

theorem fit_failure_leaves_untrained_counterexample:
  "fit (init 1000 (1/100) (1/10^7) False) \<lparr>ncols = 1, rows = [[1], [2]]\<rparr> [0, 1, 1] (\<lambda>k. 0) =
     Inl (ValueError,
          \<lparr>self_D = Some 1, self_trained = False, self_max_iter = 1000, self_a = 1/100,
           self_w = None, self_N = Some 2, self_error_diff = 1/10^7, self_show = False\<rparr>)"
  by (simp add: fit_mismatch shape0_def shape1_def init_def)


subsection \<open>The ROC sweep\<close>

lemma linspace_thresholds: "linspace 0 1 100 = thresholds"
  unfolding linspace_def thresholds_def by (simp del: upt_Suc) 

lemma predict_ok:
  assumes "self_trained self" "self_w self = Some w" "length w = shape1 X + 1"
  shows "predict self X p =
    Inr ([], Some (map (\<lambda>q. if q < p then 0 else 1)
                     (map (\<lambda>r. sigmoid (sum_list (map2 (*) r w))) (rows (add_ones X)))))"
proof -
  have "y_probab self (add_ones X) =
      Inr (map (\<lambda>r. sigmoid (sum_list (map2 (*) r w))) (rows (add_ones X)))"
    using assms by (intro y_probab_ok) (simp_all add: shape1_def)
  then show ?thesis using assms(1) by (simp add: predict_def)
qed

lemma bucket_pos:
  "i < length T \<Longrightarrow> T ! i = t \<Longrightarrow> Y ! i = y \<Longrightarrow> 0 < bucket T Y t y"
proof -
  assume a: "i < length T" "T ! i = t" "Y ! i = y"
  then have "i \<in> set (filter (\<lambda>i. T ! i = t \<and> Y ! i = y) [0..<length T])" by simp
  then have "filter (\<lambda>i. T ! i = t \<and> Y ! i = y) [0..<length T] \<noteq> []"
    by (metis empty_iff empty_set)
  then show ?thesis by (simp add: bucket_def)
qed

lemma bucket_row_pos:
  fixes Y :: "int list"
  assumes "t \<in> set T" "length Y = length T" "set Y \<subseteq> {0, 1}"
  shows "0 < bucket T Y t 0 + bucket T Y t 1"
proof -
  from assms(1) obtain i where i: "i < length T" "T ! i = t"
    by (auto simp: in_set_conv_nth)
  then have "Y ! i \<in> set Y" using assms(2) by simp
  then have "Y ! i = 0 \<or> Y ! i = 1" using assms(3) by auto
  then show ?thesis
    using bucket_pos[OF i, of Y 0] bucket_pos[OF i, of Y 1] by auto
qed


lemma roc_loop_step:
  fixes T :: "'a::zero_neq_one list"
  assumes "predict self X p = Inr ([], Some ys)" "length ys = length T" "set ys \<subseteq> {0, 1}"
    "set T \<subseteq> {0, 1}" "0 \<in> set T" "1 \<in> set T"
  shows "roc_loop self X T (p # ps) recall specif_minus =
    roc_loop self X T ps (recall @ [snd (roc_point T ys)]) (specif_minus @ [fst (roc_point T ys)])"
proof -
  have cm: "confusion_matrix T ys True =
      Inr (Values (bucket T ys 0 0, bucket T ys 1 0, bucket T ys 0 1, bucket T ys 1 1))"
    by (rule confusion_matrix_binary(1)[OF assms(2,4,3)])
  have p0: "0 < bucket T ys 0 0 + bucket T ys 0 1"
    by (rule bucket_row_pos[OF assms(5,2,3)])
  have p1: "0 < bucket T ys 1 1 + bucket T ys 1 0"
    using bucket_row_pos[OF assms(6,2,3)] by (simp add: add.commute)
  have d0: "py_div (bucket T ys 0 0) (bucket T ys 0 0 + bucket T ys 0 1) = Inr (snd (roc_point T ys))"
    using p0 by (simp add: py_div_def roc_point_def)
  have d1: "py_div (bucket T ys 1 1) (bucket T ys 1 1 + bucket T ys 1 0) =
      Inr (real (bucket T ys 1 1) / real (bucket T ys 1 1 + bucket T ys 1 0))"
    using p1 by (simp add: py_div_def)
  have f: "1 - real (bucket T ys 1 1) / real (bucket T ys 1 1 + bucket T ys 1 0) = fst (roc_point T ys)"
    by (simp add: roc_point_def)
  show ?thesis
    by (simp only: roc_loop.simps assms(1) cm d0 d1 f sum.case prod.case option.case cm_value.case)
qed

lemma roc_loop_points:
  fixes T :: "'a::zero_neq_one list"
  assumes "\<And>p. predict self X p = Inr ([], Some (lab p))"
    "\<And>p. length (lab p) = length T" "\<And>p. set (lab p) \<subseteq> {0, 1}"
    "set T \<subseteq> {0, 1}" "0 \<in> set T" "1 \<in> set T"
  shows "roc_loop self X T ps recall specif_minus =
    Inr (recall @ map (\<lambda>p. snd (roc_point T (lab p))) ps,
         specif_minus @ map (\<lambda>p. fst (roc_point T (lab p))) ps)"
proof (induction ps arbitrary: recall specif_minus)
  case Nil
  show ?case by simp
next
  case (Cons p ps)
  show ?case
    unfolding roc_loop_step[OF assms(1) assms(2) assms(3) assms(4) assms(5) assms(6)] Cons.IH
    by simp
qed

lemma fold_add_sum_list:
  "fold (\<lambda>i acc. acc + f i) xs (a :: real) = a + sum_list (map f xs)"
  by (induction xs arbitrary: a) simp_all

lemma auc_loop_trapezoid:
  "auc_loop (map snd pts) (map fst pts) = trapezoid_auc pts"
proof -
  have "auc_loop (map snd pts) (map fst pts) =
      (\<Sum>i<length pts - 1. (map snd pts ! i + map snd pts ! (i + 1)) *
           (map fst pts ! (i + 1) - map fst pts ! i) * 0.5)"
    unfolding auc_loop_def fold_add_sum_list
    by (simp add: interv_sum_list_conv_sum_set_nat atLeast0LessThan)
  also have "\<dots> = trapezoid_auc pts"
    unfolding trapezoid_auc_def by (intro sum.cong) simp_all
  finally show ?thesis .
qed


lemma bucket_zero: "t \<notin> set T \<Longrightarrow> bucket T Y t y = 0"
proof -
  assume a: "t \<notin> set T"
  have "filter (\<lambda>i. T ! i = t \<and> Y ! i = y) [0..<length T] = []"
    unfolding filter_empty_conv using a nth_mem[of _ T] by auto
  then show ?thesis by (simp add: bucket_def)
qed

lemma roc_loop_single_class:
  fixes T :: "'a::zero_neq_one list"
  assumes "predict self X p = Inr ([], Some ys)" "length ys = length T" "set ys \<subseteq> {0, 1}"
    "set T \<subseteq> {0, 1}" "0 \<notin> set T \<or> 1 \<notin> set T"
  shows "roc_loop self X T (p # ps) recall specif_minus = Inl ZeroDivisionError"
proof -
  have cm: "confusion_matrix T ys True =
      Inr (Values (bucket T ys 0 0, bucket T ys 1 0, bucket T ys 0 1, bucket T ys 1 1))"
    by (rule confusion_matrix_binary(1)[OF assms(2,4,3)])
  show ?thesis
  proof (cases "0 \<in> set T")
    case False
    have d0: "py_div (bucket T ys 0 0) (bucket T ys 0 0 + bucket T ys 0 1) = Inl ZeroDivisionError"
      by (simp add: py_div_def bucket_zero[OF False])
    show ?thesis
      by (simp only: roc_loop.simps assms(1) cm d0 sum.case prod.case option.case cm_value.case)
  next
    case True
    with assms(5) have n1: "1 \<notin> set T" by simp
    have p0: "0 < bucket T ys 0 0 + bucket T ys 0 1"
      by (rule bucket_row_pos[OF True assms(2,3)])
    have d0: "py_div (bucket T ys 0 0) (bucket T ys 0 0 + bucket T ys 0 1) =
        Inr (real (bucket T ys 0 0) / real (bucket T ys 0 0 + bucket T ys 0 1))"
      using p0 by (simp add: py_div_def)
    have d1: "py_div (bucket T ys 1 1) (bucket T ys 1 1 + bucket T ys 1 0) = Inl ZeroDivisionError"
      by (simp add: py_div_def bucket_zero[OF n1])
    show ?thesis
      by (simp only: roc_loop.simps assms(1) cm d0 d1 sum.case prod.case option.case cm_value.case)
  qed
qed

lemma thresholds_Cons: "thresholds = 0 # map (\<lambda>k. real k / 99) [1..<100]"
  unfolding thresholds_def by (subst upt_rec) simp

text \<open>
  Claim C2, as amended. Take a trained model whose weight vector has one entry more
  than \<open>X\<close> has columns and a binary label vector \<open>T\<close> with one label per row of \<open>X\<close>.
  When both classes occur in \<open>T\<close>, \<open>ROC\<close> sweeps the 100 thresholds \<open>k / 99\<close>, takes at
  each the labels \<open>predict\<close> gives and from them the point
  \<open>(1 - TN / (TN + FP), TP / (TP + FN))\<close>, and sums the trapezoids of consecutive points
  in sweep order; the two coordinate sequences and the area go to the plotting calls,
  and the value returned to the caller is \<open>None\<close>. When a class is missing from \<open>T\<close>,
  a quotient of the first threshold has denominator 0 and \<open>ROC\<close> raises
  \<open>ZeroDivisionError\<close>.
\<close>

theorem ROC_sweep:
  fixes T :: "'a::zero_neq_one list"
  assumes "self_trained self" "self_w self = Some w" "length w = shape1 X + 1"
    "length T = shape0 X" "set T \<subseteq> {0, 1}"
  shows "(0 \<in> set T \<and> 1 \<in> set T \<longrightarrow>
      (\<exists>pts. length pts = 100 \<and>
        (\<forall>k<100. \<exists>ys. predict self X (real k / 99) = Inr ([], Some ys) \<and>
                        pts ! k = roc_point T ys) \<and>
        ROC self X T =
          Inr ([Plot_ROC_curve (map fst pts) (map snd pts) (trapezoid_auc pts),
                Plot_dashed [0, 1] [0, 1],
                Legend ''lower right'',
                Ylabel ''sensitivity'',
                Xlabel ''1 - specificity'',
                Show], ()))) \<and>
    (0 \<notin> set T \<or> 1 \<notin> set T \<longrightarrow> ROC self X T = Inl ZeroDivisionError)"
proof (intro conjI impI)
  define probs where "probs = map (\<lambda>r. sigmoid (sum_list (map2 (*) r w))) (rows (add_ones X))"
  define lab :: "real \<Rightarrow> int list" where "lab p = map (\<lambda>q. if q < p then 0 else 1) probs" for p
  define pts where "pts = map (\<lambda>p. roc_point T (lab p)) thresholds"
  have pr: "predict self X p = Inr ([], Some (lab p))" for p
    unfolding lab_def probs_def by (rule predict_ok[OF assms(1-3)])
  have len: "length (lab p) = length T" for p
    using assms(4) by (simp add: lab_def probs_def shape0_def)
  have bin: "set (lab p) \<subseteq> {0, 1}" for p
    by (auto simp: lab_def)
  {
    assume both: "0 \<in> set T \<and> 1 \<in> set T"
    then have c0: "0 \<in> set T" and c1: "1 \<in> set T" by simp_all
    have "roc_loop self X T thresholds [] [] =
        Inr ([] @ map (\<lambda>p. snd (roc_point T (lab p))) thresholds,
             [] @ map (\<lambda>p. fst (roc_point T (lab p))) thresholds)"
      by (rule roc_loop_points[of self X lab T, OF pr len bin assms(5) c0 c1])
    then have loop: "roc_loop self X T (linspace 0 1 100) [] [] = Inr (map snd pts, map fst pts)"
      by (simp add: linspace_thresholds pts_def o_def)
    have roc: "ROC self X T =
          Inr ([Plot_ROC_curve (map fst pts) (map snd pts) (trapezoid_auc pts),
                Plot_dashed [0, 1] [0, 1],
                Legend ''lower right'',
                Ylabel ''sensitivity'',
                Xlabel ''1 - specificity'',
                Show], ())"
      unfolding ROC_def loop by (simp add: auc_loop_trapezoid)
    have l: "length pts = 100" by (simp add: pts_def thresholds_def)
    have "\<exists>ys. predict self X (real k / 99) = Inr ([], Some ys) \<and> pts ! k = roc_point T ys"
      if "k < 100" for k
    proof -
      have "thresholds ! k = real k / 99"
        using that unfolding thresholds_def by (simp del: upt_Suc)
      then have "pts ! k = roc_point T (lab (real k / 99))"
        using that by (simp add: pts_def thresholds_def del: upt_Suc)
      with pr show ?thesis by blast
    qed
    with l roc show "\<exists>pts. length pts = 100 \<and>
        (\<forall>k<100. \<exists>ys. predict self X (real k / 99) = Inr ([], Some ys) \<and>
                        pts ! k = roc_point T ys) \<and>
        ROC self X T =
          Inr ([Plot_ROC_curve (map fst pts) (map snd pts) (trapezoid_auc pts),
                Plot_dashed [0, 1] [0, 1],
                Legend ''lower right'',
                Ylabel ''sensitivity'',
                Xlabel ''1 - specificity'',
                Show], ())"
      by blast
  }
  {
    assume single: "0 \<notin> set T \<or> 1 \<notin> set T"
    have "roc_loop self X T (linspace 0 1 100) [] [] = Inl ZeroDivisionError"
      unfolding linspace_thresholds thresholds_Cons
      by (rule roc_loop_single_class[OF pr len bin assms(5) single])
    then show "ROC self X T = Inl ZeroDivisionError"
      by (simp add: ROC_def)
  }
qed

theorem ROC_sweep_witness:
  "self_trained ((init 1000 (1/100) (1/10^7) False)\<lparr>self_trained := True, self_w := Some [0, 0]\<rparr>) \<and>
   self_w ((init 1000 (1/100) (1/10^7) False)\<lparr>self_trained := True, self_w := Some [0, 0]\<rparr>) = Some [0, 0] \<and>
   length [0, 0 :: real] = shape1 \<lparr>ncols = 1, rows = [[3], [5]]\<rparr> + 1 \<and>
   length [0, 1 :: int] = shape0 \<lparr>ncols = 1, rows = [[3], [5]]\<rparr> \<and>
   set [0, 1 :: int] \<subseteq> {0, 1} \<and> 0 \<in> set [0, 1 :: int] \<and> 1 \<in> set [0, 1 :: int] \<and>
   (\<exists>pts. length pts = 100 \<and>
      (\<forall>k<100. \<exists>ys. predict
           ((init 1000 (1/100) (1/10^7) False)\<lparr>self_trained := True, self_w := Some [0, 0]\<rparr>)
           \<lparr>ncols = 1, rows = [[3], [5]]\<rparr> (real k / 99) = Inr ([], Some ys) \<and>
         pts ! k = roc_point [0, 1 :: int] ys) \<and>
      ROC ((init 1000 (1/100) (1/10^7) False)\<lparr>self_trained := True, self_w := Some [0, 0]\<rparr>)
          \<lparr>ncols = 1, rows = [[3], [5]]\<rparr> [0, 1 :: int] =
        Inr ([Plot_ROC_curve (map fst pts) (map snd pts) (trapezoid_auc pts),
              Plot_dashed [0, 1] [0, 1],
              Legend ''lower right'',
              Ylabel ''sensitivity'',
              Xlabel ''1 - specificity'',
              Show], ())) \<and>
   length [0, 0 :: int] = shape0 \<lparr>ncols = 1, rows = [[3], [5]]\<rparr> \<and>
   set [0, 0 :: int] \<subseteq> {0, 1} \<and> 1 \<notin> set [0, 0 :: int] \<and>
   ROC ((init 1000 (1/100) (1/10^7) False)\<lparr>self_trained := True, self_w := Some [0, 0]\<rparr>)
       \<lparr>ncols = 1, rows = [[3], [5]]\<rparr> [0, 0 :: int] = Inl ZeroDivisionError"
proof -
  let ?m = "(init 1000 (1/100) (1/10^7) False)\<lparr>self_trained := True, self_w := Some [0, 0]\<rparr>"
  let ?X = "\<lparr>ncols = 1, rows = [[3], [5]]\<rparr> :: matrix"
  have h1: "self_trained ?m" by simp
  have h2: "self_w ?m = Some [0, 0]" by simp
  have h3: "length [0, 0 :: real] = shape1 ?X + 1" by (simp add: shape1_def)
  have h4: "length [0, 1 :: int] = shape0 ?X" by (simp add: shape0_def)
  have h5: "set [0, 1 :: int] \<subseteq> {0, 1}" by simp
  have h6: "0 \<in> set [0, 1 :: int] \<and> 1 \<in> set [0, 1 :: int]" by simp
  have g4: "length [0, 0 :: int] = shape0 ?X" by (simp add: shape0_def)
  have g5: "set [0, 0 :: int] \<subseteq> {0, 1}" by simp
  have g6: "0 \<notin> set [0, 0 :: int] \<or> 1 \<notin> set [0, 0 :: int]" by simp
  have g7: "1 \<notin> set [0, 0 :: int]" by simp
  note a = ROC_sweep[OF h1 h2 h3 h4 h5, THEN conjunct1, rule_format, OF h6]
  note b = ROC_sweep[OF h1 h2 h3 g4 g5, THEN conjunct2, rule_format, OF g6]
  from a b show ?thesis
    using h1 h2 h3 h4 h5 h6 g4 g5 g7 by blast
qed

text \<open>
  A test set whose labels are all 1 has \<open>TP + FN = 0\<close>: at the first threshold the
  quotient \<open>TP / (TP + FN)\<close> raises \<open>ZeroDivisionError\<close> and \<open>ROC\<close> produces nothing.
\<close>

theorem ROC_single_class_counterexample:
  "ROC ((init 1000 (1/100) (1/10^7) False)\<lparr>self_trained := True, self_w := Some [0, 0]\<rparr>)
       \<lparr>ncols = 1, rows = [[3], [5]]\<rparr> [1, 1 :: int] = Inl ZeroDivisionError"
proof -
  show ?thesis
    unfolding ROC_def linspace_thresholds thresholds_Cons
    by (simp add: predict_def y_probab_def dot_mv_def sigmoid_def add_ones_def
        confusion_matrix_def py_div_def upt_rec)
qed



end
